theory Spec2Isabelle
  imports Complex_Main "HOL-Library.Product_Lexorder"
begin

section \<open>Floating-point values of the array library\<close>

text \<open>
  The notebooks compute on float64 arrays. A value is modelled as a finite real number or
  one of the three special values of IEEE arithmetic. Finite arithmetic is exact here:
  rounding, overflow to infinity and the sign of zero are not modelled. What is modelled is
  what the special values do, since a missing coordinate or a no-data pixel is a NaN and
  a division by zero is not an exception in the array library but an infinity or a NaN.
\<close>

datatype npfloat = Fin real | PInf | NInf | NaN

text \<open>IEEE \<open><\<close>: false as soon as one side is NaN.\<close>

fun flt :: "npfloat \<Rightarrow> npfloat \<Rightarrow> bool" where
  "flt NaN _ = False"
| "flt _ NaN = False"
| "flt (Fin a) (Fin b) = (a < b)"
| "flt (Fin _) PInf = True"
| "flt (Fin _) NInf = False"
| "flt PInf _ = False"
| "flt NInf NInf = False"
| "flt NInf _ = True"

definition fgt :: "npfloat \<Rightarrow> npfloat \<Rightarrow> bool" where
  "fgt a b = flt b a"

text \<open>
  Arithmetic on the modelled values follows IEEE 754 for the special values: a NaN operand
  gives NaN, \<open>\<infinity> - \<infinity>\<close>, \<open>0 \<sqdot> \<infinity>\<close>, \<open>0 / 0\<close> and \<open>\<infinity> / \<infinity>\<close> give NaN, a nonzero finite
  value divided by zero gives an infinity, and the square root of a negative value is NaN.
  The array library raises no exception for any of these.
\<close>

fun fadd :: "npfloat \<Rightarrow> npfloat \<Rightarrow> npfloat" where
  "fadd NaN _ = NaN"
| "fadd _ NaN = NaN"
| "fadd (Fin a) (Fin b) = Fin (a + b)"
| "fadd (Fin _) PInf = PInf"
| "fadd (Fin _) NInf = NInf"
| "fadd PInf NInf = NaN"
| "fadd PInf _ = PInf"
| "fadd NInf PInf = NaN"
| "fadd NInf _ = NInf"

fun fmul :: "npfloat \<Rightarrow> npfloat \<Rightarrow> npfloat" where
  "fmul NaN _ = NaN"
| "fmul _ NaN = NaN"
| "fmul (Fin a) (Fin b) = Fin (a * b)"
| "fmul (Fin a) PInf = (if a = 0 then NaN else if 0 < a then PInf else NInf)"
| "fmul (Fin a) NInf = (if a = 0 then NaN else if 0 < a then NInf else PInf)"
| "fmul PInf (Fin b) = (if b = 0 then NaN else if 0 < b then PInf else NInf)"
| "fmul NInf (Fin b) = (if b = 0 then NaN else if 0 < b then NInf else PInf)"
| "fmul PInf PInf = PInf"
| "fmul PInf NInf = NInf"
| "fmul NInf PInf = NInf"
| "fmul NInf NInf = PInf"

fun fdiv :: "npfloat \<Rightarrow> npfloat \<Rightarrow> npfloat" where
  "fdiv NaN _ = NaN"
| "fdiv _ NaN = NaN"
| "fdiv (Fin a) (Fin b) =
     (if b = 0 then (if a = 0 then NaN else if 0 < a then PInf else NInf) else Fin (a / b))"
| "fdiv (Fin _) _ = Fin 0"
| "fdiv PInf (Fin b) = (if 0 \<le> b then PInf else NInf)"
| "fdiv NInf (Fin b) = (if 0 \<le> b then NInf else PInf)"
| "fdiv _ _ = NaN"

fun fsqrt :: "npfloat \<Rightarrow> npfloat" where
  "fsqrt (Fin a) = (if a < 0 then NaN else Fin (sqrt a))"
| "fsqrt PInf = PInf"
| "fsqrt _ = NaN"

definition fsquare :: "npfloat \<Rightarrow> npfloat" where
  "fsquare v = fmul v v"

text \<open>IEEE \<open>\<le>\<close>, and the real number a finite value stands for.\<close>

definition fle :: "npfloat \<Rightarrow> npfloat \<Rightarrow> bool" where
  "fle a b \<longleftrightarrow> flt a b \<or> (a = b \<and> a \<noteq> NaN)"

fun fin_val :: "npfloat \<Rightarrow> real" where
  "fin_val (Fin a) = a"
| "fin_val _ = 0"

fun is_fin :: "npfloat \<Rightarrow> bool" where
  "is_fin (Fin _) = True"
| "is_fin _ = False"

section \<open>Occurrence records and the bounding-box filter\<close>

text \<open>
  \<^verbatim>\<open>Billy_frogs_planetary_computer.ipynb\<close> keeps four columns of the occurrence table,
  \<^verbatim>\<open>[['eventdate', 'order', 'decimallatitude', 'decimallongitude']]\<close>, and filters it with
  a boolean mask:
  \<^verbatim>\<open>
  df = df[
      (df.decimallatitude < max_lat) &
      (df.decimallatitude > min_lat) &
      (df.decimallongitude < max_lon) &
      (df.decimallongitude > min_lon)
  ]
  \<close>
  A data frame is the list of its rows, a column the list of its values, a comparison of a
  column with a scalar the list of the row-wise truth values, \<^verbatim>\<open>&\<close> the row-wise
  conjunction, and \<^verbatim>\<open>df[mask]\<close> the rows whose mask entry is true.
\<close>

record occurrence =
  eventdate :: string
  order_col :: string
  decimallatitude :: npfloat
  decimallongitude :: npfloat

type_synonym dataframe = "occurrence list"

definition column :: "(occurrence \<Rightarrow> 'a) \<Rightarrow> dataframe \<Rightarrow> 'a list" where
  "column f df = map f df"

definition series_lt :: "npfloat list \<Rightarrow> npfloat \<Rightarrow> bool list" where
  "series_lt col v = map (\<lambda>x. flt x v) col"

definition series_gt :: "npfloat list \<Rightarrow> npfloat \<Rightarrow> bool list" where
  "series_gt col v = map (\<lambda>x. fgt x v) col"

definition series_and :: "bool list \<Rightarrow> bool list \<Rightarrow> bool list" where
  "series_and a b = map (\<lambda>(p, q). p \<and> q) (zip a b)"

definition boolean_mask :: "'a list \<Rightarrow> bool list \<Rightarrow> 'a list" where
  "boolean_mask df msk = map fst (filter snd (zip df msk))"

text \<open>The bounding box is the tuple \<^verbatim>\<open>(min_lon, min_lat, max_lon, max_lat)\<close>.\<close>

definition bbox_filter :: "npfloat \<times> npfloat \<times> npfloat \<times> npfloat \<Rightarrow> dataframe \<Rightarrow> dataframe" where
  "bbox_filter bbox df =
     (case bbox of (min_lon, min_lat, max_lon, max_lat) \<Rightarrow>
        boolean_mask df
          (series_and
            (series_and
              (series_and (series_lt (column decimallatitude df) max_lat)
                          (series_gt (column decimallatitude df) min_lat))
              (series_lt (column decimallongitude df) max_lon))
            (series_gt (column decimallongitude df) min_lon)))"

text \<open>The condition in the words of the specification.\<close>

definition strictly_inside :: "npfloat \<times> npfloat \<times> npfloat \<times> npfloat \<Rightarrow> occurrence \<Rightarrow> bool" where
  "strictly_inside bbox r =
     (case bbox of (min_lon, min_lat, max_lon, max_lat) \<Rightarrow>
        flt min_lat (decimallatitude r) \<and> flt (decimallatitude r) max_lat \<and>
        flt min_lon (decimallongitude r) \<and> flt (decimallongitude r) max_lon)"

definition on_edge :: "npfloat \<times> npfloat \<times> npfloat \<times> npfloat \<Rightarrow> occurrence \<Rightarrow> bool" where
  "on_edge bbox r =
     (case bbox of (min_lon, min_lat, max_lon, max_lat) \<Rightarrow>
        decimallatitude r = min_lat \<or> decimallatitude r = max_lat \<or>
        decimallongitude r = min_lon \<or> decimallongitude r = max_lon)"

section \<open>Arrays and labelled arrays\<close>

text \<open>
  An array of the numerical library is its shape and its values in row-major order. A
  labelled array (\<^verbatim>\<open>xarray.DataArray\<close>) of the notebooks carries the values, the names
  of its dimensions and the coordinates \<^verbatim>\<open>band\<close>, \<^verbatim>\<open>x\<close> and \<^verbatim>\<open>y\<close>. The x and y
  coordinates of a raster are finite numbers (longitudes and latitudes of the pixels).
\<close>

datatype py_error =
  UnboundLocalError | ValueError | KeyError | IndexError | RuntimeError | RequestError

record ndarray =
  shape :: "nat list"
  buf :: "npfloat list"

record dataarray =
  da_values :: ndarray
  da_dims :: "string list"
  da_band :: "string list"
  da_x :: "real list"
  da_y :: "real list"

text \<open>
  \<^verbatim>\<open>np.concatenate((a, b), axis=0)\<close>: both arrays have at least one dimension and agree
  on every dimension but the first; otherwise a \<^verbatim>\<open>ValueError\<close>.
\<close>

definition np_concatenate :: "ndarray \<Rightarrow> ndarray \<Rightarrow> py_error + ndarray" where
  "np_concatenate a b =
     (case (shape a, shape b) of
        (n # s, m # t) \<Rightarrow>
          if s = t then Inr \<lparr>shape = (n + m) # s, buf = buf a @ buf b\<rparr> else Inl ValueError
      | _ \<Rightarrow> Inl ValueError)"

text \<open>
  \<^verbatim>\<open>xr.DataArray(data=..., dims=..., coords=dict(band=..., x=..., y=...))\<close>: there is one
  dimension name per axis of the data, every coordinate names a dimension, and each
  coordinate is as long as its axis; otherwise a \<^verbatim>\<open>ValueError\<close>.
\<close>

definition coord_len :: "string list \<Rightarrow> real list \<Rightarrow> real list \<Rightarrow> string \<Rightarrow> nat option" where
  "coord_len bands xs ys d =
     (if d = ''band'' then Some (length bands)
      else if d = ''x'' then Some (length xs)
      else if d = ''y'' then Some (length ys)
      else None)"

definition xr_DataArray ::
  "ndarray \<Rightarrow> string list \<Rightarrow> string list \<Rightarrow> real list \<Rightarrow> real list \<Rightarrow> py_error + dataarray" where
  "xr_DataArray data dims bands xs ys =
     (if length dims \<noteq> length (shape data) then Inl ValueError
      else if \<not> {''band'', ''x'', ''y''} \<subseteq> set dims then Inl ValueError
      else if list_ex (\<lambda>(d, n). case coord_len bands xs ys d of None \<Rightarrow> False | Some l \<Rightarrow> l \<noteq> n)
                (zip dims (shape data)) then Inl ValueError
      else Inr \<lparr>da_values = data, da_dims = dims, da_band = bands, da_x = xs, da_y = ys\<rparr>)"

section \<open>Stitching the predictor datasets together\<close>

text \<open>
  \<^verbatim>\<open>create_predictor_image\<close> of \<^verbatim>\<open>Billy_Model-Copy2.ipynb\<close>:
  \<^verbatim>\<open>
  for i, data in enumerate(all_datasets):
      if i == 0:
          combined_values = data.values
          combined_bands = data.band.values
          x_coords = data.x
          y_coords = data.y
          dims = data.dims
      else:
          combined_values = np.concatenate((combined_values, data.values), axis=0)
          combined_bands = np.concatenate((combined_bands, data.band.values))
  predictor_image = xr.DataArray(data=combined_values, dims=dims,
      coords=dict(band=combined_bands, x=x_coords, y=y_coords))
  return predictor_image
  \<close>
  The five local variables are bound together in the first iteration; before it they are
  unbound (\<open>None\<close>), and reading an unbound local raises \<^verbatim>\<open>UnboundLocalError\<close>.
\<close>

record cpi_locals =
  combined_values :: ndarray
  combined_bands :: "string list"
  x_coords :: "real list"
  y_coords :: "real list"
  dims :: "string list"

fun cpi_loop :: "nat \<Rightarrow> dataarray list \<Rightarrow> cpi_locals option \<Rightarrow> py_error + cpi_locals option" where
  "cpi_loop i [] st = Inr st"
| "cpi_loop i (data # rest) st =
     (if i = 0 then
        cpi_loop (i + 1) rest
          (Some \<lparr>combined_values = da_values data, combined_bands = da_band data,
                 x_coords = da_x data, y_coords = da_y data, dims = da_dims data\<rparr>)
      else
        (case st of
           None \<Rightarrow> Inl UnboundLocalError
         | Some l \<Rightarrow>
             (case np_concatenate (combined_values l) (da_values data) of
                Inl e \<Rightarrow> Inl e
              | Inr v \<Rightarrow>
                  cpi_loop (i + 1) rest
                    (Some (l\<lparr>combined_values := v,
                             combined_bands := combined_bands l @ da_band data\<rparr>)))))"

definition create_predictor_image :: "dataarray list \<Rightarrow> py_error + dataarray" where
  "create_predictor_image all_datasets =
     (case cpi_loop 0 all_datasets None of
        Inl e \<Rightarrow> Inl e
      | Inr None \<Rightarrow> Inl UnboundLocalError
      | Inr (Some l) \<Rightarrow>
          xr_DataArray (combined_values l) (dims l) (combined_bands l) (x_coords l) (y_coords l))"

text \<open>
  The datasets the docstring describes: the i-th array has dimensions \<open>(k\<^sub>i, n, m)\<close>, named
  band, y and x, with one band label per plane and one coordinate per row and per column.
\<close>

definition band_y_x :: "dataarray \<Rightarrow> bool" where
  "band_y_x d \<longleftrightarrow>
     da_dims d = [''band'', ''y'', ''x''] \<and>
     shape (da_values d) = [length (da_band d), length (da_y d), length (da_x d)]"

definition same_spatial :: "dataarray \<Rightarrow> dataarray \<Rightarrow> bool" where
  "same_spatial d e \<longleftrightarrow> length (da_y e) = length (da_y d) \<and> length (da_x e) = length (da_x d)"

section \<open>GeoTIFF export\<close>

text \<open>
  A raster file opened for writing (\<^verbatim>\<open>rasterio.open(filename, 'w', width=..., height=...,
  count=...)\<close>) has a fixed number of bands, numbered from 1, each of the file's height and
  width. The model keeps what has been written to each band and the band descriptions;
  the conversion of the values to the file's dtype is not modelled.
\<close>

record geotiff =
  gt_width :: nat
  gt_height :: nat
  gt_count :: nat
  gt_bands :: "nat \<rightharpoonup> ndarray"
  gt_descriptions :: "nat \<rightharpoonup> string"

definition rasterio_open_w :: "nat \<Rightarrow> nat \<Rightarrow> nat \<Rightarrow> geotiff" where
  "rasterio_open_w width height count =
     \<lparr>gt_width = width, gt_height = height, gt_count = count,
      gt_bands = Map.empty, gt_descriptions = Map.empty\<rparr>"

text \<open>
  \<^verbatim>\<open>dst.write(arr, bidx)\<close> and \<^verbatim>\<open>dst.write_band(bidx, arr)\<close> write one two-dimensional
  array to band \<open>bidx\<close>: an \<^verbatim>\<open>IndexError\<close> when the file has no such band, a
  \<^verbatim>\<open>ValueError\<close> when the array has not the shape of the file.
\<close>

definition write_band :: "geotiff \<Rightarrow> nat \<Rightarrow> ndarray \<Rightarrow> py_error + geotiff" where
  "write_band dst bidx arr =
     (if bidx < 1 \<or> gt_count dst < bidx then Inl IndexError
      else if shape arr \<noteq> [gt_height dst, gt_width dst] then Inl ValueError
      else Inr (dst\<lparr>gt_bands := (gt_bands dst)(bidx \<mapsto> arr)\<rparr>))"

definition set_band_description :: "geotiff \<Rightarrow> nat \<Rightarrow> string \<Rightarrow> py_error + geotiff" where
  "set_band_description dst bidx v =
     (if bidx < 1 \<or> gt_count dst < bidx then Inl IndexError
      else Inr (dst\<lparr>gt_descriptions := (gt_descriptions dst)(bidx \<mapsto> v)\<rparr>))"

text \<open>The k-th plane (from 0) of an array along its first axis.\<close>

definition plane :: "ndarray \<Rightarrow> nat \<Rightarrow> ndarray" where
  "plane a k =
     (let sz = prod_list (tl (shape a))
      in \<lparr>shape = tl (shape a), buf = take sz (drop (k * sz) (buf a))\<rparr>)"

text \<open>
  \<^verbatim>\<open>dst.write(arr)\<close> with a three-dimensional array and no band index writes plane k of
  the array to band k + 1, for every band of the file; the array must have the shape
  (count, height, width).
\<close>

definition write_all :: "geotiff \<Rightarrow> ndarray \<Rightarrow> py_error + geotiff" where
  "write_all dst arr =
     (if shape arr \<noteq> [gt_count dst, gt_height dst, gt_width dst] then Inl ValueError
      else Inr (dst\<lparr>gt_bands :=
             (\<lambda>b. if 1 \<le> b \<and> b \<le> gt_count dst then Some (plane arr (b - 1))
                  else gt_bands dst b)\<rparr>))"

text \<open>
  The elevation notebook:
  \<^verbatim>\<open>
  height = Clipped_Data.elevation.shape[0]
  width = Clipped_Data.elevation.shape[1]
  with rasterio.open(filename,'w',driver='GTiff',width=width,height=height,crs='epsg:4326',
                     transform=gt,count=2,compress='lzw',dtype='float32') as dst:
      dst.write(Clipped_Data.elevation,1)
      dst.write(Clipped_Data.slope,2)
  \<close>
\<close>

definition dem_export :: "ndarray \<Rightarrow> ndarray \<Rightarrow> py_error + geotiff" where
  "dem_export elevation slope =
     (case shape elevation of
        height # width # _ \<Rightarrow>
          (case write_band (rasterio_open_w width height 2) 1 elevation of
             Inl e \<Rightarrow> Inl e
           | Inr dst \<Rightarrow> write_band dst 2 slope)
      | _ \<Rightarrow> Inl IndexError)"

text \<open>
  \<^verbatim>\<open>data.sel(band=label)\<close> on an array of dimensions (band, y, x): a \<^verbatim>\<open>KeyError\<close> when no
  band has the label, the plane of the band (without the band axis) when exactly one has
  it, and the stack of the matching planes (with the band axis) when several have it.
\<close>

definition positions :: "'a list \<Rightarrow> 'a \<Rightarrow> nat list" where
  "positions xs v = filter (\<lambda>k. xs ! k = v) [0..<length xs]"

definition sel_band :: "dataarray \<Rightarrow> string \<Rightarrow> py_error + ndarray" where
  "sel_band data label =
     (case positions (da_band data) label of
        [] \<Rightarrow> Inl KeyError
      | [k] \<Rightarrow> Inr (plane (da_values data) k)
      | ks \<Rightarrow> Inr \<lparr>shape = length ks # tl (shape (da_values data)),
                    buf = concat (map (\<lambda>k. buf (plane (da_values data) k)) ks)\<rparr>)"

text \<open>
  The surface-water notebook:
  \<^verbatim>\<open>
  height = data.sel(band="occurrence").shape[0]
  width = data.sel(band="occurrence").shape[1]
  with rasterio.open(filename,'w',driver='GTiff',width=width,height=height,
                     count=len(cog_assets),compress='lzw',dtype='float64',
                     crs="EPSG:4326") as dst:
      dst.write(data)
      for i, band in enumerate(cog_assets):
          img = data.sel(band=band)
          dst.write_band(i+1, img)
          dst.set_band_description(i+1, band)
  \<close>
\<close>

fun jrc_loop :: "dataarray \<Rightarrow> nat \<Rightarrow> string list \<Rightarrow> geotiff \<Rightarrow> py_error + geotiff" where
  "jrc_loop data i [] dst = Inr dst"
| "jrc_loop data i (band # rest) dst =
     (case sel_band data band of
        Inl e \<Rightarrow> Inl e
      | Inr img \<Rightarrow>
          (case write_band dst (i + 1) img of
             Inl e \<Rightarrow> Inl e
           | Inr dst1 \<Rightarrow>
               (case set_band_description dst1 (i + 1) band of
                  Inl e \<Rightarrow> Inl e
                | Inr dst2 \<Rightarrow> jrc_loop data (i + 1) rest dst2)))"

definition jrc_export :: "dataarray \<Rightarrow> string list \<Rightarrow> py_error + geotiff" where
  "jrc_export data cog_assets =
     (case sel_band data ''occurrence'' of
        Inl e \<Rightarrow> Inl e
      | Inr occ \<Rightarrow>
          (case shape occ of
             height # width # _ \<Rightarrow>
               (case write_all (rasterio_open_w width height (length cog_assets)) (da_values data) of
                  Inl e \<Rightarrow> Inl e
                | Inr dst \<Rightarrow> jrc_loop data 0 cog_assets dst)
           | _ \<Rightarrow> Inl IndexError))"

text \<open>
  The two Sentinel-2 notebooks write the four bands of the mosaic by name:
  \<^verbatim>\<open>
  height = median.sel(band="red").shape[0]
  width = median.sel(band="red").shape[1]
  with rasterio.open(filename,'w',driver='GTiff',width=width,height=height,
                     crs='epsg:4326',transform=gt,count=4,compress='lzw',dtype='float64') as dst:
      dst.write(median.sel(band="red"),1)
      dst.write(median.sel(band="green"),2)
      dst.write(median.sel(band="blue"),3)
      dst.write(median.sel(band="nir"),4)
  \<close>
\<close>

definition write_sel :: "dataarray \<Rightarrow> string \<Rightarrow> nat \<Rightarrow> geotiff \<Rightarrow> py_error + geotiff" where
  "write_sel data label bidx dst =
     (case sel_band data label of
        Inl e \<Rightarrow> Inl e
      | Inr img \<Rightarrow> write_band dst bidx img)"

definition s2_export :: "dataarray \<Rightarrow> py_error + geotiff" where
  "s2_export mosaic =
     (case sel_band mosaic ''red'' of
        Inl e \<Rightarrow> Inl e
      | Inr red \<Rightarrow>
          (case shape red of
             height # width # _ \<Rightarrow>
               (case write_sel mosaic ''red'' 1 (rasterio_open_w width height 4) of
                  Inl e \<Rightarrow> Inl e
                | Inr dst1 \<Rightarrow>
                    (case write_sel mosaic ''green'' 2 dst1 of
                       Inl e \<Rightarrow> Inl e
                     | Inr dst2 \<Rightarrow>
                         (case write_sel mosaic ''blue'' 3 dst2 of
                            Inl e \<Rightarrow> Inl e
                          | Inr dst3 \<Rightarrow> write_sel mosaic ''nir'' 4 dst3)))
           | _ \<Rightarrow> Inl IndexError))"

text \<open>
  The land-cover section of the surface-water notebook writes its single band:
  \<^verbatim>\<open>
  height = land_cover.shape[0]
  width = land_cover.shape[1]
  with rasterio.open(filename,'w',driver='GTiff',width=width,height=height,
                     crs='epsg:4326',transform=gt,count=1,compress='lzw',dtype=np.ubyte) as dst:
      dst.write(land_cover,1)
  \<close>
\<close>

definition land_cover_export :: "ndarray \<Rightarrow> py_error + geotiff" where
  "land_cover_export land_cover =
     (case shape land_cover of
        height # width # _ \<Rightarrow> write_band (rasterio_open_w width height 1) 1 land_cover
      | _ \<Rightarrow> Inl IndexError)"

section \<open>Extracting the occurrence records partition by partition\<close>

text \<open>
  \<^verbatim>\<open>Billy_frogs_planetary_computer.ipynb\<close> reads the occurrence table through a signed
  handle \<^verbatim>\<open>df\<close>, one partition at a time:
  \<^verbatim>\<open>
  frogs = pd.DataFrame()
  for i in range(df.npartitions):
      if np.random.random() < 0.1:
          try:
              frogs = frogs.append(df.get_partition(i).compute())
          except:
              df = resign_planetary_computer()
              frogs = frogs.append(df.get_partition(i).compute())
  \<close>
  The remote side is a parameter of the model. Its answers may change with time (a
  signature expires), so they depend on the number of remote calls made before: computing
  partition \<open>i\<close> through handle \<open>h\<close> as call number \<open>t\<close> gives
  \<open>compute_partition env t h i\<close>, the rows or an exception, and signing again as call
  number \<open>t\<close> gives \<open>resign_planetary_computer env t\<close>, a new handle or an exception.
  \<open>random_draw env i\<close> says whether the i-th random number is below 0.1. The state is
  the notebook's globals \<^verbatim>\<open>df\<close> and \<^verbatim>\<open>frogs\<close>, with the list of the remote calls made so
  far. An exception that leaves the loop is returned with the state it leaves behind.
  The remote calls of the occurrence notebooks are: computing a partition through a
  handle (\<open>Compute h i\<close>), signing (\<open>Sign\<close>), and requesting a page of the occurrence
  search API (\<open>SearchPage offset limit\<close>, used by \<^verbatim>\<open>get_frogs\<close> below).
\<close>

datatype remote_call = Compute nat nat | Sign | SearchPage nat nat

record extract_env =
  compute_partition :: "nat \<Rightarrow> nat \<Rightarrow> nat \<Rightarrow> py_error + dataframe"
  resign_planetary_computer :: "nat \<Rightarrow> py_error + nat"
  random_draw :: "nat \<Rightarrow> bool"

record extract_state =
  st_df :: nat
  st_frogs :: dataframe
  st_calls :: "remote_call list"

definition extract_step ::
  "extract_env \<Rightarrow> nat \<Rightarrow> extract_state \<Rightarrow> (py_error \<times> extract_state) + extract_state" where
  "extract_step env i st =
     (if random_draw env i then
        (case compute_partition env (length (st_calls st)) (st_df st) i of
           Inr rows \<Rightarrow>
             Inr (st\<lparr>st_frogs := st_frogs st @ rows,
                     st_calls := st_calls st @ [Compute (st_df st) i]\<rparr>)
         | Inl _ \<Rightarrow>
             (let st1 = st\<lparr>st_calls := st_calls st @ [Compute (st_df st) i]\<rparr> in
              case resign_planetary_computer env (length (st_calls st1)) of
                Inl e \<Rightarrow> Inl (e, st1\<lparr>st_calls := st_calls st1 @ [Sign]\<rparr>)
              | Inr h \<Rightarrow>
                  (let st2 = st1\<lparr>st_df := h, st_calls := st_calls st1 @ [Sign]\<rparr> in
                   case compute_partition env (length (st_calls st2)) h i of
                     Inl e \<Rightarrow> Inl (e, st2\<lparr>st_calls := st_calls st2 @ [Compute h i]\<rparr>)
                   | Inr rows \<Rightarrow>
                       Inr (st2\<lparr>st_frogs := st_frogs st2 @ rows,
                                st_calls := st_calls st2 @ [Compute h i]\<rparr>))))
      else Inr st)"

fun extract_loop ::
  "extract_env \<Rightarrow> nat list \<Rightarrow> extract_state \<Rightarrow> (py_error \<times> extract_state) + extract_state" where
  "extract_loop env [] st = Inr st"
| "extract_loop env (i # rest) st =
     (case extract_step env i st of
        Inl failure \<Rightarrow> Inl failure
      | Inr st' \<Rightarrow> extract_loop env rest st')"

definition extract_frogs :: "extract_env \<Rightarrow> nat \<Rightarrow> nat \<Rightarrow> (py_error \<times> extract_state) + extract_state" where
  "extract_frogs env npartitions handle =
     extract_loop env [0..<npartitions] \<lparr>st_df = handle, st_frogs = [], st_calls = []\<rparr>"

text \<open>The state a run ends in, and the number of times a partition was computed.\<close>

definition outcome_state :: "(py_error \<times> extract_state) + extract_state \<Rightarrow> extract_state" where
  "outcome_state r = (case r of Inl (e, st) \<Rightarrow> st | Inr st \<Rightarrow> st)"

fun is_compute_of :: "nat \<Rightarrow> remote_call \<Rightarrow> bool" where
  "is_compute_of i (Compute h j) = (j = i)"
| "is_compute_of i _ = False"

definition computes_of :: "nat \<Rightarrow> remote_call list \<Rightarrow> nat" where
  "computes_of i calls = length (filter (is_compute_of i) calls)"

section \<open>Slope from elevation\<close>

text \<open>Elementwise operations of the array library.\<close>

definition np_div :: "ndarray \<Rightarrow> npfloat \<Rightarrow> ndarray" where
  "np_div a s = a\<lparr>buf := map (\<lambda>v. fdiv v s) (buf a)\<rparr>"

definition np_mul :: "ndarray \<Rightarrow> npfloat \<Rightarrow> ndarray" where
  "np_mul a s = a\<lparr>buf := map (\<lambda>v. fmul v s) (buf a)\<rparr>"

definition np_square :: "ndarray \<Rightarrow> ndarray" where
  "np_square a = a\<lparr>buf := map fsquare (buf a)\<rparr>"

definition np_sqrt :: "ndarray \<Rightarrow> ndarray" where
  "np_sqrt a = a\<lparr>buf := map fsqrt (buf a)\<rparr>"

text \<open>
  The sum of two arrays of one shape (the two operands of the notebooks' sum are both of
  the shape of the elevation array; broadcasting between different shapes is not modelled).
\<close>

definition np_add :: "ndarray \<Rightarrow> ndarray \<Rightarrow> ndarray" where
  "np_add a b = a\<lparr>buf := map (\<lambda>(v, w). fadd v w) (zip (buf a) (buf b))\<rparr>"

text \<open>The value at row \<open>i\<close> and column \<open>j\<close> of a two-dimensional array.\<close>

definition at2 :: "ndarray \<Rightarrow> nat \<Rightarrow> nat \<Rightarrow> npfloat" where
  "at2 a i j = buf a ! (i * (shape a ! 1) + j)"

text \<open>
  \<^verbatim>\<open>scipy.ndimage.convolve(input, weights)\<close> with its default boundary mode
  \<^verbatim>\<open>'reflect'\<close>, which extends the input by mirroring it about the edge of the last
  pixel (\<^verbatim>\<open>d c b a | a b c d | d c b a\<close>). For a two-dimensional input and integer
  weights of shape \<open>(kh, kw)\<close> the output has the shape of the input and
  \<open>output[i, j] = \<Sum> weights[a, b] \<sqdot> input[i + kh div 2 - a, j + kw div 2 - b]\<close>,
  the sum taken over the nonzero weights only (the library drops the zero weights from
  the filter, so that a NaN under a zero weight does not reach the output). Element \<open>k\<close>
  of the row-major values of an array with \<open>nx\<close> columns is the pixel in row
  \<open>k div nx\<close> and column \<open>k mod nx\<close>. An input that is not two-dimensional while the
  weights are is a \<^verbatim>\<open>RuntimeError\<close>.
\<close>

definition reflect :: "int \<Rightarrow> nat \<Rightarrow> nat" where
  "reflect k n =
     (let m = k mod (2 * int n)
      in if m < int n then nat m else nat (2 * int n - 1 - m))"

definition conv_at :: "ndarray \<Rightarrow> int list list \<Rightarrow> nat \<Rightarrow> nat \<Rightarrow> npfloat" where
  "conv_at input weights i j =
     (let kh = length weights; kw = length (hd weights);
          ny = shape input ! 0; nx = shape input ! 1
      in foldl (\<lambda>acc (a, b).
                  fadd acc
                    (fmul (Fin (real_of_int (weights ! a ! b)))
                       (at2 input (reflect (int i + int (kh div 2) - int a) ny)
                                  (reflect (int j + int (kw div 2) - int b) nx))))
           (Fin 0)
           (filter (\<lambda>(a, b). weights ! a ! b \<noteq> 0) (List.product [0..<kh] [0..<kw])))"

definition convolve :: "ndarray \<Rightarrow> int list list \<Rightarrow> py_error + ndarray" where
  "convolve input weights =
     (case shape input of
        [ny, nx] \<Rightarrow>
          Inr \<lparr>shape = [ny, nx],
               buf = map (\<lambda>k. conv_at input weights (k div nx) (k mod nx)) [0..<ny * nx]\<rparr>
      | _ \<Rightarrow> Inl RuntimeError)"

text \<open>
  \<^verbatim>\<open>
  def slope_pct(dem, resolution):
      dx_kernel = np.array([[1, 0, -1], [2, 0, -2], [1, 0, -1]])
      dy_kernel = np.array([[1, 2, 1], [0, 0, 0], [-1, -2, -1]])
      dx = convolve(dem, dx_kernel) / (8 * resolution)
      dy = convolve(dem, dy_kernel) / (8 * resolution)
      return np.sqrt(np.square(dx) + np.square(dy)) * 100
  \<close>
\<close>

definition dx_kernel :: "int list list" where
  "dx_kernel = [[1, 0, -1], [2, 0, -2], [1, 0, -1]]"

definition dy_kernel :: "int list list" where
  "dy_kernel = [[1, 2, 1], [0, 0, 0], [-1, -2, -1]]"

definition slope_pct :: "ndarray \<Rightarrow> npfloat \<Rightarrow> py_error + ndarray" where
  "slope_pct dem resolution =
     (case convolve dem dx_kernel of
        Inl e \<Rightarrow> Inl e
      | Inr cx \<Rightarrow>
          (let dx = np_div cx (fmul (Fin 8) resolution) in
           case convolve dem dy_kernel of
             Inl e \<Rightarrow> Inl e
           | Inr cy \<Rightarrow>
               (let dy = np_div cy (fmul (Fin 8) resolution)
                in Inr (np_mul (np_sqrt (np_add (np_square dx) (np_square dy))) (Fin 100)))))"

text \<open>
  The specification's formula, on real numbers: the convolution of a finite elevation grid
  with a 3x3 kernel at a pixel, the grid mirrored at its border, and the slope in percent
  from the two gradients.
\<close>

definition elev :: "ndarray \<Rightarrow> int \<Rightarrow> int \<Rightarrow> real" where
  "elev dem p q = fin_val (at2 dem (reflect p (shape dem ! 0)) (reflect q (shape dem ! 1)))"

definition convolution3 :: "int list list \<Rightarrow> ndarray \<Rightarrow> nat \<Rightarrow> nat \<Rightarrow> real" where
  "convolution3 k dem i j =
     (\<Sum>a<3. \<Sum>b<3. real_of_int (k ! a ! b) * elev dem (int i + 1 - int a) (int j + 1 - int b))"

definition slope_formula :: "ndarray \<Rightarrow> real \<Rightarrow> nat \<Rightarrow> nat \<Rightarrow> real" where
  "slope_formula dem resolution i j =
     (let dx = convolution3 dx_kernel dem i j / (8 * resolution);
          dy = convolution3 dy_kernel dem i j / (8 * resolution)
      in sqrt (dx\<^sup>2 + dy\<^sup>2) * 100)"

definition grid :: "nat \<Rightarrow> nat \<Rightarrow> ndarray \<Rightarrow> bool" where
  "grid ny nx a \<longleftrightarrow> shape a = [ny, nx] \<and> length (buf a) = ny * nx"

definition finite_array :: "ndarray \<Rightarrow> bool" where
  "finite_array a \<longleftrightarrow> list_all is_fin (buf a)"

text \<open>The value the array operations of \<open>slope_pct\<close> leave at one pixel.\<close>

definition slope_at :: "ndarray \<Rightarrow> npfloat \<Rightarrow> nat \<Rightarrow> nat \<Rightarrow> npfloat" where
  "slope_at dem resolution i j =
     fmul (fsqrt (fadd (fsquare (fdiv (conv_at dem dx_kernel i j) (fmul (Fin 8) resolution)))
                       (fsquare (fdiv (conv_at dem dy_kernel i j) (fmul (Fin 8) resolution)))))
          (Fin 100)"

section \<open>Fetching a predictor from the catalog\<close>

text \<open>
  A catalog item carries named assets, each with the URL of its data (\<^verbatim>\<open>href\<close>) and a
  media type. A URL of the data store is usable once it carries an access signature;
  \<^verbatim>\<open>planetary_computer.sign\<close> adds one to a URL, to an asset or to every asset of an
  item, and leaves a signed URL as it is.
\<close>

datatype url = Unsigned string | Signed string

record asset =
  asset_href :: url
  asset_media_type :: string

record stac_item =
  item_id :: string
  item_assets :: "(string \<times> asset) list"

fun sign_url :: "url \<Rightarrow> url" where
  "sign_url (Unsigned u) = Signed u"
| "sign_url (Signed u) = Signed u"

definition sign_asset :: "asset \<Rightarrow> asset" where
  "sign_asset a = a\<lparr>asset_href := sign_url (asset_href a)\<rparr>"

definition sign_item :: "stac_item \<Rightarrow> stac_item" where
  "sign_item it = it\<lparr>item_assets := map (\<lambda>(k, a). (k, sign_asset a)) (item_assets it)\<rparr>"


text \<open>
  The parameters of a catalog search (\<^verbatim>\<open>stac.search(bbox=..., datetime=...,
  collections=..., limit=..., query=...)\<close>); a parameter that is not given is \<open>None\<close>.
\<close>

record stac_query =
  q_bbox :: "real \<times> real \<times> real \<times> real"
  q_collections :: "string list"
  q_datetime :: "string option"
  q_limit :: "nat option"
  q_query :: "string option"

text \<open>
  \<^verbatim>\<open>stackstac.stack(items, assets=...)\<close> reads the selected assets of the items: the
  assets with the given names when \<^verbatim>\<open>assets\<close> is a list, the assets of the given media
  types when it is a set (the default is \<^verbatim>\<open>{"image/tiff"}\<close>).
\<close>

datatype asset_sel = AssetIds "string list" | MediaTypes "string list"

fun selected :: "asset_sel \<Rightarrow> string \<times> asset \<Rightarrow> bool" where
  "selected (AssetIds ids) (k, a) = (k \<in> set ids)"
| "selected (MediaTypes ms) (k, a) = (asset_media_type a \<in> set ms)"

definition stack_hrefs :: "stac_item list \<Rightarrow> asset_sel \<Rightarrow> url list" where
  "stack_hrefs items sel =
     concat (map (\<lambda>it. map (\<lambda>(k, a). asset_href a) (filter (selected sel) (item_assets it))) items)"

text \<open>
  The remote side is a parameter of the model: the items the catalog returns for a
  query, the assets of a collection read by its URL, the array \<^verbatim>\<open>stackstac.stack\<close> builds
  from the items it is given (of dimensions time, band, y, x), and the data set behind a
  Zarr store.
\<close>

record pc_env =
  stac_search :: "stac_query \<Rightarrow> stac_item list"
  read_collection_assets :: "string \<Rightarrow> (string \<times> asset) list"
  stackstac_stack ::
    "stac_item list \<Rightarrow> asset_sel \<Rightarrow> real \<Rightarrow> real \<times> real \<times> real \<times> real \<Rightarrow> py_error + ndarray"
  open_zarr :: "url \<Rightarrow> real \<times> real \<times> real \<times> real \<Rightarrow> py_error + ndarray"

text \<open>
  \<^verbatim>\<open>data.where(lambda x: x != na_val, other=np.nan)\<close> keeps a value that differs from
  \<^verbatim>\<open>na_val\<close> and replaces the others by NaN; in IEEE arithmetic a NaN differs from
  everything.
\<close>

fun feq :: "npfloat \<Rightarrow> npfloat \<Rightarrow> bool" where
  "feq NaN _ = False"
| "feq _ NaN = False"
| "feq a b = (a = b)"

definition np_where_ne :: "ndarray \<Rightarrow> npfloat \<Rightarrow> ndarray" where
  "np_where_ne data na_val = data\<lparr>buf := map (\<lambda>v. if \<not> feq v na_val then v else NaN) (buf data)\<rparr>"

text \<open>
  The median that skips NaN (\<^verbatim>\<open>median(..., skipna=True)\<close>): the values that are not NaN
  are sorted; the result is the middle one, the mean of the two middle ones when their
  number is even, and NaN when there is none.
\<close>

fun fkey :: "npfloat \<Rightarrow> int \<times> real" where
  "fkey NInf = (-1, 0)"
| "fkey (Fin a) = (0, a)"
| "fkey PInf = (1, 0)"
| "fkey NaN = (2, 0)"

definition nanmedian :: "npfloat list \<Rightarrow> npfloat" where
  "nanmedian vs =
     (let s = sort_key fkey (filter (\<lambda>v. v \<noteq> NaN) vs); n = length s
      in if n = 0 then NaN
         else if odd n then s ! (n div 2)
         else fdiv (fadd (s ! (n div 2 - 1)) (s ! (n div 2))) (Fin 2))"

text \<open>
  \<^verbatim>\<open>data.median(dim="time", skipna=True)\<close>, time being the first axis: the result has the
  remaining axes, and its value at position \<open>p\<close> is the median of the values at \<open>p\<close> of
  the time slices.
\<close>

definition time_series :: "ndarray \<Rightarrow> nat \<Rightarrow> npfloat list" where
  "time_series data p =
     map (\<lambda>t. buf data ! (t * prod_list (tl (shape data)) + p)) [0..<hd (shape data)]"

definition median_time :: "ndarray \<Rightarrow> py_error + ndarray" where
  "median_time data =
     (case shape data of
        [] \<Rightarrow> Inl ValueError
      | nt # rest \<Rightarrow>
          Inr \<lparr>shape = rest, buf = map (\<lambda>p. nanmedian (time_series data p)) [0..<prod_list rest]\<rparr>)"

text \<open>
  \<^verbatim>\<open>get_pc\<close> of \<^verbatim>\<open>Billy_Model-Copy2.ipynb\<close>:
  \<^verbatim>\<open>
  def get_pc(product, bbox, assets={"image/tiff"}, resolution=10, pc_query=None,
             date_range=None, na_val=None, resample_dims=()):
      if product == 'terraclimate':
          collection = pystac.read_file(".../api/stac/v1/collections/terraclimate")
          asset = collection.assets["zarr-https"]
          store = fsspec.get_mapper(asset.href)
          data = xr.open_zarr(store, **asset.extra_fields["xarray:open_kwargs"])
          clipped_data = data.sel(...)
          parsed_data = clipped_data[['tmax', 'tmin', 'ppt', 'soil']]
          return parsed_data.compute()
      stac = pystac_client.Client.open(".../api/stac/v1")
      search = stac.search(bbox=bbox, datetime=date_range, collections=[product],
                           limit=500, query=pc_query)
      items = list(search.get_items())
      signed_items = [planetary_computer.sign(item).to_dict() for item in items]
      scale = resolution / 111320.0
      data = stackstac.stack(signed_items, epsg=4326, resolution=scale, bounds_latlon=bbox,
                             resampling=rio.enums.Resampling.average, chunksize=4096,
                             assets=assets)
      if na_val is not None:
          data = data.where(lambda x: x != na_val, other=np.nan)
      median = data.median(dim="time", skipna=True).compute()
      return median
  \<close>
  The model returns, with the data, the catalog queries made and the URLs handed to the
  readers.
\<close>

record pc_result =
  pc_data :: ndarray
  pc_queries :: "stac_query list"
  pc_opened :: "url list"

definition terraclimate_url :: string where
  "terraclimate_url = ''https://planetarycomputer.microsoft.com/api/stac/v1/collections/terraclimate''"

definition pc_search ::
  "string \<Rightarrow> real \<times> real \<times> real \<times> real \<Rightarrow> string option \<Rightarrow> string option \<Rightarrow> stac_query" where
  "pc_search product bbox pc_query date_range =
     \<lparr>q_bbox = bbox, q_collections = [product], q_datetime = date_range,
      q_limit = Some 500, q_query = pc_query\<rparr>"

definition get_pc ::
  "pc_env \<Rightarrow> string \<Rightarrow> real \<times> real \<times> real \<times> real \<Rightarrow> asset_sel \<Rightarrow> real \<Rightarrow> string option \<Rightarrow>
   string option \<Rightarrow> npfloat option \<Rightarrow> py_error + pc_result" where
  "get_pc env product bbox assets resolution pc_query date_range na_val =
     (if product = ''terraclimate'' then
        (case map_of (read_collection_assets env terraclimate_url) ''zarr-https'' of
           None \<Rightarrow> Inl KeyError
         | Some asset \<Rightarrow>
             (case open_zarr env (asset_href asset) bbox of
                Inl e \<Rightarrow> Inl e
              | Inr parsed_data \<Rightarrow>
                  Inr \<lparr>pc_data = parsed_data, pc_queries = [], pc_opened = [asset_href asset]\<rparr>))
      else
        (let search = pc_search product bbox pc_query date_range;
             items = stac_search env search;
             signed_items = map sign_item items;
             scale = resolution / 111320
         in case stackstac_stack env signed_items assets scale bbox of
              Inl e \<Rightarrow> Inl e
            | Inr data \<Rightarrow>
                (case median_time (case na_val of None \<Rightarrow> data | Some v \<Rightarrow> np_where_ne data v) of
                   Inl e \<Rightarrow> Inl e
                 | Inr median \<Rightarrow>
                     Inr \<lparr>pc_data = median, pc_queries = [search],
                          pc_opened = stack_hrefs signed_items assets\<rparr>)))"


text \<open>
  The surface-water notebook searches the catalog, takes the first item as it is, and
  opens the URL of each listed asset:
  \<^verbatim>\<open>
  search = stac.search(bbox=bbox, collections=["jrc-gsw"])
  items = list(search.get_items())
  item = items[0]
  for asset_key in cog_assets:
      asset_url = item.assets[asset_key].href
      with rasterio.open(asset_url) as src:
          colormap_def = src.colormap(1)
  \<close>
  The model gives the URLs opened.
\<close>

fun lookup_hrefs :: "(string \<times> asset) list \<Rightarrow> string list \<Rightarrow> py_error + url list" where
  "lookup_hrefs assets [] = Inr []"
| "lookup_hrefs assets (asset_key # rest) =
     (case map_of assets asset_key of
        None \<Rightarrow> Inl KeyError
      | Some a \<Rightarrow>
          (case lookup_hrefs assets rest of
             Inl e \<Rightarrow> Inl e
           | Inr urls \<Rightarrow> Inr (asset_href a # urls)))"

definition jrc_colormap_open ::
  "pc_env \<Rightarrow> real \<times> real \<times> real \<times> real \<Rightarrow> string list \<Rightarrow> py_error + url list" where
  "jrc_colormap_open env bbox cog_assets =
     (case stac_search env \<lparr>q_bbox = bbox, q_collections = [''jrc-gsw''], q_datetime = None,
                              q_limit = None, q_query = None\<rparr> of
        [] \<Rightarrow> Inl IndexError
      | item # _ \<Rightarrow> lookup_hrefs (item_assets item) cog_assets)"

text \<open>
  The median of a list of real numbers, and the values of a time series that count: those
  that are not NaN and, when a no-data value is given, differ from it.
\<close>

definition median :: "real list \<Rightarrow> real" where
  "median xs =
     (let s = sort xs; n = length s
      in if odd n then s ! (n div 2) else (s ! (n div 2 - 1) + s ! (n div 2)) / 2)"

definition valid_values :: "npfloat option \<Rightarrow> npfloat list \<Rightarrow> real list" where
  "valid_values na_val vs =
     map fin_val (filter (\<lambda>v. v \<noteq> NaN \<and> (case na_val of None \<Rightarrow> True | Some n \<Rightarrow> v \<noteq> n)) vs)"

definition finite_or_nan :: "ndarray \<Rightarrow> bool" where
  "finite_or_nan a \<longleftrightarrow> list_all (\<lambda>v. is_fin v \<or> v = NaN) (buf a)"

section \<open>Occurrence records from the search API\<close>












section \<open>Joining the predictor pixels to the occurrence points\<close>

text \<open>
  \<^verbatim>\<open>predictor_image.sel(x=lon, y=lat, method="nearest")\<close> looks each of the two
  coordinates up in the index of its axis. The lookup of the array library takes the
  position whose coordinate is at the least distance from the target, and of two
  coordinates at the same distance the larger one. The index must not be empty
  (\<^verbatim>\<open>KeyError\<close>) and must be strictly increasing or strictly decreasing
  (\<^verbatim>\<open>ValueError\<close>). Distances are exact here.
\<close>

definition rank :: "real \<Rightarrow> real \<Rightarrow> real \<times> real" where
  "rank target c = (\<bar>c - target\<bar>, - c)"

definition nearest_pos :: "real list \<Rightarrow> real \<Rightarrow> nat" where
  "nearest_pos coords target =
     fold (\<lambda>k best. if rank target (coords ! k) < rank target (coords ! best) then k else best)
       [1..<length coords] 0"

definition sel_nearest :: "real list \<Rightarrow> real \<Rightarrow> py_error + nat" where
  "sel_nearest coords target =
     (if coords = [] then Inl KeyError
      else if \<not> (sorted_wrt (<) coords \<or> sorted_wrt (>) coords) then Inl ValueError
      else Inr (nearest_pos coords target))"

text \<open>
  The values of all bands at one pixel of an image of dimensions (band, y, x), in band
  order. An image of other dimensions is outside the model and reported as an error.
\<close>

definition pixel_values :: "dataarray \<Rightarrow> nat \<Rightarrow> nat \<Rightarrow> npfloat list" where
  "pixel_values img iy ix =
     map (\<lambda>b. buf (da_values img) ! ((b * length (da_y img) + iy) * length (da_x img) + ix))
       [0..<length (da_band img)]"

definition sel_nearest_pixel :: "dataarray \<Rightarrow> real \<Rightarrow> real \<Rightarrow> py_error + npfloat list" where
  "sel_nearest_pixel img lon lat =
     (if da_dims img \<noteq> [''band'', ''y'', ''x''] then Inl ValueError
      else case sel_nearest (da_x img) lon of
             Inl e \<Rightarrow> Inl e
           | Inr ix \<Rightarrow>
               (case sel_nearest (da_y img) lat of
                  Inl e \<Rightarrow> Inl e
                | Inr iy \<Rightarrow> Inr (pixel_values img iy ix)))"

text \<open>
  \<^verbatim>\<open>join_features\<close> of \<^verbatim>\<open>Billy_Model-Copy2.ipynb\<close>:
  \<^verbatim>\<open>
  def join_features(model_data, predictor_image):
      data_per_point = pd.DataFrame()
      for j, (lon, lat, key) in enumerate(zip(model_data.decimalLongitude,
                                              model_data.decimalLatitude, model_data.key)):
          nearest_point = predictor_image.sel(x=lon, y=lat, method="nearest")
          values = np.concatenate((np.squeeze(nearest_point.values), np.array([key])))
          columns = list(nearest_point.band.values) + ['key']
          data_per_point = data_per_point.append(
              pd.DataFrame(np.array([values]), columns=columns))
      model_data = model_data.merge(data_per_point, on = ['key'], how = 'inner')
      return model_data
  \<close>
  A row of the model data has the two coordinates, the join key and the response; the
  coordinates of an occurrence that reaches the join are finite. A row of
  \<^verbatim>\<open>data_per_point\<close> has the band values of a pixel and a key. \<^verbatim>\<open>np.squeeze\<close> turns the
  values of a single band into an array without dimension, which \<^verbatim>\<open>np.concatenate\<close>
  rejects with a \<^verbatim>\<open>ValueError\<close>. The inner merge pairs every row of the model data with
  every row of \<^verbatim>\<open>data_per_point\<close> of the same key; when \<^verbatim>\<open>data_per_point\<close> has no row it has
  no column \<^verbatim>\<open>key\<close> either, and the merge raises \<^verbatim>\<open>KeyError\<close>.
\<close>

record model_row =
  decimalLongitude :: real
  decimalLatitude :: real
  key :: int
  occurrenceStatus :: int

record point_row =
  pp_values :: "npfloat list"
  pp_key :: int

fun join_loop :: "dataarray \<Rightarrow> model_row list \<Rightarrow> point_row list \<Rightarrow> py_error + point_row list" where
  "join_loop predictor_image [] data_per_point = Inr data_per_point"
| "join_loop predictor_image (row # rest) data_per_point =
     (case sel_nearest_pixel predictor_image (decimalLongitude row) (decimalLatitude row) of
        Inl e \<Rightarrow> Inl e
      | Inr nearest_point \<Rightarrow>
          if length nearest_point = 1 then Inl ValueError
          else join_loop predictor_image rest
                 (data_per_point @ [\<lparr>pp_values = nearest_point, pp_key = key row\<rparr>]))"

definition merge_inner :: "model_row list \<Rightarrow> point_row list \<Rightarrow> (model_row \<times> npfloat list) list" where
  "merge_inner model_data data_per_point =
     concat (map (\<lambda>m. map (\<lambda>d. (m, pp_values d))
                          (filter (\<lambda>d. pp_key d = key m) data_per_point))
                 model_data)"

definition join_features :: "model_row list \<Rightarrow> dataarray \<Rightarrow> py_error + (model_row \<times> npfloat list) list" where
  "join_features model_data predictor_image =
     (case join_loop predictor_image model_data [] of
        Inl e \<Rightarrow> Inl e
      | Inr data_per_point \<Rightarrow>
          if data_per_point = [] then Inl KeyError
          else Inr (merge_inner model_data data_per_point))"

text \<open>
  The pixel nearest to a point, and what it means for a position to be nearest on an axis.
\<close>

definition nearest_pixel :: "dataarray \<Rightarrow> model_row \<Rightarrow> npfloat list" where
  "nearest_pixel img r =
     pixel_values img (nearest_pos (da_y img) (decimalLatitude r))
                      (nearest_pos (da_x img) (decimalLongitude r))"

definition is_nearest :: "real list \<Rightarrow> real \<Rightarrow> nat \<Rightarrow> bool" where
  "is_nearest coords target i \<longleftrightarrow>
     i < length coords \<and> (\<forall>k<length coords. \<bar>coords ! i - target\<bar> \<le> \<bar>coords ! k - target\<bar>)"

definition regular_axis :: "real list \<Rightarrow> bool" where
  "regular_axis coords \<longleftrightarrow> coords \<noteq> [] \<and> (sorted_wrt (<) coords \<or> sorted_wrt (>) coords)"

section \<open>Sample inputs\<close>

text \<open>Sample inputs: the Richmond bounding box of the notebooks and two records.\<close>

definition richmond :: "npfloat \<times> npfloat \<times> npfloat \<times> npfloat" where
  "richmond = (Fin 150.62, Fin (-33.69), Fin 150.83, Fin (-33.48))"

definition frog_inside :: occurrence where
  "frog_inside = \<lparr>eventdate = ''2019-11-02'', order_col = ''Anura'',
     decimallatitude = Fin (-33.5), decimallongitude = Fin 150.7\<rparr>"

definition frog_on_edge :: occurrence where
  "frog_on_edge = \<lparr>eventdate = ''2019-11-03'', order_col = ''Anura'',
     decimallatitude = Fin (-33.48), decimallongitude = Fin 150.7\<rparr>"

text \<open>Sample inputs: a one-band and a two-band dataset on a grid of one row and two columns.\<close>

definition elevation_ds :: dataarray where
  "elevation_ds = \<lparr>da_values = \<lparr>shape = [1, 1, 2], buf = [Fin 12, Fin 15]\<rparr>,
     da_dims = [''band'', ''y'', ''x''], da_band = [''elevation''],
     da_x = [150.7, 150.8], da_y = [-33.5]\<rparr>"

definition weather_ds :: dataarray where
  "weather_ds = \<lparr>da_values = \<lparr>shape = [2, 1, 2], buf = [Fin 30, Fin 31, Fin 4, Fin 5]\<rparr>,
     da_dims = [''band'', ''y'', ''x''], da_band = [''tmax'', ''tmin''],
     da_x = [150.71, 150.81], da_y = [-33.51]\<rparr>"

text \<open>
  Sample inputs: a surface-water array of two bands, an elevation and a slope raster, and a
  mosaic of four bands over a single pixel.
\<close>

definition water_ds :: dataarray where
  "water_ds = \<lparr>da_values = \<lparr>shape = [2, 1, 2], buf = [Fin 90, Fin 95, Fin 1, Fin 2]\<rparr>,
     da_dims = [''band'', ''y'', ''x''], da_band = [''occurrence'', ''change''],
     da_x = [150.7, 150.8], da_y = [-33.5]\<rparr>"

definition elevation_arr :: ndarray where
  "elevation_arr = \<lparr>shape = [1, 2], buf = [Fin 12, Fin 15]\<rparr>"

definition slope_arr :: ndarray where
  "slope_arr = \<lparr>shape = [1, 2], buf = [Fin 5, Fin 5]\<rparr>"

definition mosaic_ds :: dataarray where
  "mosaic_ds = \<lparr>da_values = \<lparr>shape = [4, 1, 1], buf = [Fin 1, Fin 2, Fin 3, Fin 4]\<rparr>,
     da_dims = [''band'', ''y'', ''x''], da_band = [''nir'', ''blue'', ''green'', ''red''],
     da_x = [150.7], da_y = [-33.5]\<rparr>"

text \<open>
  Sample input: the handle 0 has expired and every computation through it fails; signing
  again gives the handle 1, which works.
\<close>

definition expiring_env :: extract_env where
  "expiring_env =
     \<lparr>compute_partition = (\<lambda>t h i. if h = 0 then Inl RequestError
                                   else Inr (if i = 0 then [frog_inside] else [frog_on_edge])),
      resign_planetary_computer = (\<lambda>t. Inr 1),
      random_draw = (\<lambda>i. True)\<rparr>"

definition fresh_state :: extract_state where
  "fresh_state = \<lparr>st_df = 0, st_frogs = [], st_calls = []\<rparr>"

text \<open>
  Sample inputs: a grid of one row rising from 0 to 8, and a flat grid of a single pixel.
\<close>

definition ramp :: ndarray where
  "ramp = \<lparr>shape = [1, 2], buf = [Fin 0, Fin 8]\<rparr>"

definition flat :: ndarray where
  "flat = \<lparr>shape = [1, 1], buf = [Fin 0]\<rparr>"

text \<open>
  Sample inputs: three scenes of one band over a grid of one row and two columns (the
  first pixel is 0, 2, 4 over time, the second NaN, 7, 3), and a catalog that returns one
  item with a GeoTIFF asset and a preview.
\<close>

definition scenes :: ndarray where
  "scenes = \<lparr>shape = [3, 1, 1, 2], buf = [Fin 0, NaN, Fin 2, Fin 7, Fin 4, Fin 3]\<rparr>"

definition scene_item :: stac_item where
  "scene_item = \<lparr>item_id = ''scene'',
     item_assets = [(''data'', \<lparr>asset_href = Unsigned ''https://store/data.tif'',
                               asset_media_type = ''image/tiff''\<rparr>),
                    (''thumbnail'', \<lparr>asset_href = Unsigned ''https://store/preview.png'',
                               asset_media_type = ''image/png''\<rparr>)]\<rparr>"

definition catalog_env :: pc_env where
  "catalog_env =
     \<lparr>stac_search = (\<lambda>q. [scene_item]),
      read_collection_assets =
        (\<lambda>u. [(''zarr-https'', \<lparr>asset_href = Unsigned ''https://store/terraclimate.zarr'',
                                  asset_media_type = ''application/vnd+zarr''\<rparr>)]),
      stackstac_stack = (\<lambda>items sel scale bbox. Inr scenes),
      open_zarr = (\<lambda>u bbox. Inr \<lparr>shape = [1], buf = [Fin 20]\<rparr>)\<rparr>"

definition richmond_box :: "real \<times> real \<times> real \<times> real" where
  "richmond_box = (150.62, -33.69, 150.83, -33.48)"






section \<open>Verified properties\<close>

subsection \<open>The bounding-box filter\<close>

lemma flt_irrefl: "\<not> flt a a"
  by (cases a) simp_all

lemma boolean_mask_map: "boolean_mask df (map P df) = filter P df"
  by (induction df) (simp_all add: boolean_mask_def)

lemma series_and_map: "series_and (map P xs) (map Q xs) = map (\<lambda>x. P x \<and> Q x) xs"
  by (induction xs) (simp_all add: series_and_def)

lemma bbox_filter_eq_filter: "bbox_filter bbox df = filter (strictly_inside bbox) df"
proof -
  obtain min_lon min_lat max_lon max_lat where b: "bbox = (min_lon, min_lat, max_lon, max_lat)"
    by (cases bbox) auto
  have "bbox_filter bbox df =
      boolean_mask df (map (\<lambda>r. ((flt (decimallatitude r) max_lat \<and> fgt (decimallatitude r) min_lat)
          \<and> flt (decimallongitude r) max_lon) \<and> fgt (decimallongitude r) min_lon) df)"
    by (simp add: b bbox_filter_def column_def series_lt_def series_gt_def series_and_map o_def)
  also have "\<dots> = filter (\<lambda>r. ((flt (decimallatitude r) max_lat \<and> fgt (decimallatitude r) min_lat)
          \<and> flt (decimallongitude r) max_lon) \<and> fgt (decimallongitude r) min_lon) df"
    by (rule boolean_mask_map)
  also have "\<dots> = filter (strictly_inside bbox) df"
    by (rule filter_cong) (auto simp: b strictly_inside_def fgt_def)
  finally show ?thesis .
qed

lemma on_edge_not_inside: "on_edge bbox r \<Longrightarrow> \<not> strictly_inside bbox r"
  by (cases bbox) (auto simp: on_edge_def strictly_inside_def flt_irrefl)

text \<open>
  C9. The bounding-box filter keeps exactly the records with
  \<open>min_lat < decimallatitude < max_lat\<close> and \<open>min_lon < decimallongitude < max_lon\<close>, in
  their order and with their multiplicity, and a record with a coordinate equal to an edge
  of the box is not kept.
\<close>

theorem bbox_filter_strict:
  "bbox_filter bbox df = filter (strictly_inside bbox) df \<and>
   (\<forall>r \<in> set df. on_edge bbox r \<longrightarrow> r \<notin> set (bbox_filter bbox df))"
  by (simp add: bbox_filter_eq_filter on_edge_not_inside)

theorem bbox_filter_strict_witness:
  "bbox_filter richmond [frog_inside, frog_on_edge] = [frog_inside] \<and>
   frog_on_edge \<in> set [frog_inside, frog_on_edge] \<and> on_edge richmond frog_on_edge \<and>
   frog_on_edge \<notin> set (bbox_filter richmond [frog_inside, frog_on_edge])"
  using bbox_filter_strict [of richmond "[frog_inside, frog_on_edge]"]
  by (simp add: richmond_def frog_inside_def frog_on_edge_def strictly_inside_def on_edge_def)

subsection \<open>The predictor image\<close>

lemma cpi_loop_rest:
  assumes "i \<noteq> 0"
    and "\<forall>d \<in> set rest. \<exists>k. shape (da_values d) = k # s"
    and "shape (combined_values l) = n # s"
  shows "\<exists>v. cpi_loop i rest (Some l) =
           Inr (Some (l\<lparr>combined_values := v,
                        combined_bands := combined_bands l @ concat (map da_band rest)\<rparr>))
         \<and> shape v = (n + sum_list (map (\<lambda>d. hd (shape (da_values d))) rest)) # s"
  using assms
proof (induction rest arbitrary: i l n)
  case Nil
  show ?case by (rule exI [of _ "combined_values l"]) (simp add: Nil)
next
  case (Cons d rest)
  obtain k where k: "shape (da_values d) = k # s" using Cons.prems(2) by auto
  define v where "v = \<lparr>shape = (n + k) # s, buf = buf (combined_values l) @ buf (da_values d)\<rparr>"
  have c: "np_concatenate (combined_values l) (da_values d) = Inr v"
    by (simp add: np_concatenate_def Cons.prems(3) k v_def)
  define l' where "l' = l\<lparr>combined_values := v, combined_bands := combined_bands l @ da_band d\<rparr>"
  have "\<exists>w. cpi_loop (i + 1) rest (Some l') =
           Inr (Some (l'\<lparr>combined_values := w,
                        combined_bands := combined_bands l' @ concat (map da_band rest)\<rparr>))
         \<and> shape w = ((n + k) + sum_list (map (\<lambda>d. hd (shape (da_values d))) rest)) # s"
    by (rule Cons.IH) (use Cons.prems in \<open>auto simp: l'_def v_def\<close>)
  then obtain w where w: "cpi_loop (i + 1) rest (Some l') =
           Inr (Some (l'\<lparr>combined_values := w,
                        combined_bands := combined_bands l' @ concat (map da_band rest)\<rparr>))"
       "shape w = ((n + k) + sum_list (map (\<lambda>d. hd (shape (da_values d))) rest)) # s"
    by blast
  show ?case
    by (rule exI [of _ w]) (use Cons.prems(1) c w in \<open>simp add: l'_def k\<close>)
qed

text \<open>
  C8. For a non-empty list of datasets of dimensions (band, y, x) that share the spatial
  dimensions of the first one, \<open>create_predictor_image\<close> returns an array whose band
  coordinate is the concatenation of the inputs' band coordinates in list order, whose
  number of bands is the sum of the inputs' numbers of bands, and whose x and y
  coordinates are those of the first dataset. For the empty list it fails: the combined
  variables are never bound.
\<close>

theorem create_predictor_image_bands:
  assumes ne: "all_datasets \<noteq> []"
    and wf: "\<forall>e \<in> set all_datasets. band_y_x e \<and> same_spatial (hd all_datasets) e"
  shows "create_predictor_image [] = Inl UnboundLocalError \<and>
    (\<exists>img. create_predictor_image all_datasets = Inr img \<and>
       da_band img = concat (map da_band all_datasets) \<and>
       hd (shape (da_values img)) = sum_list (map (\<lambda>e. length (da_band e)) all_datasets) \<and>
       length (da_band img) = sum_list (map (\<lambda>e. length (da_band e)) all_datasets) \<and>
       da_x img = da_x (hd all_datasets) \<and> da_y img = da_y (hd all_datasets))"
proof
  show "create_predictor_image [] = Inl UnboundLocalError"
    by (simp add: create_predictor_image_def)
next
  obtain d rest where ds: "all_datasets = d # rest"
    using ne by (cases all_datasets) auto
  define s where "s = [length (da_y d), length (da_x d)]"
  define l where "l = \<lparr>combined_values = da_values d, combined_bands = da_band d,
                 x_coords = da_x d, y_coords = da_y d, dims = da_dims d\<rparr>"
  have d: "band_y_x d" using wf ds by simp
  have rest: "\<forall>e \<in> set rest. \<exists>k. shape (da_values e) = k # s"
    using wf ds by (auto simp: band_y_x_def same_spatial_def s_def)
  have hd_rest: "map (\<lambda>e. hd (shape (da_values e))) rest = map (\<lambda>e. length (da_band e)) rest"
    using wf ds by (auto simp: band_y_x_def)
  have "shape (combined_values l) = length (da_band d) # s"
    using d by (simp add: l_def band_y_x_def s_def)
  from cpi_loop_rest [OF _ rest this, of 1]
  obtain v where v: "cpi_loop 1 rest (Some l) =
        Inr (Some (l\<lparr>combined_values := v,
                     combined_bands := combined_bands l @ concat (map da_band rest)\<rparr>))"
      "shape v = (length (da_band d) + sum_list (map (\<lambda>e. length (da_band e)) rest)) # s"
    by (auto simp: hd_rest)
  have loop: "cpi_loop 0 all_datasets None =
        Inr (Some (l\<lparr>combined_values := v,
                     combined_bands := combined_bands l @ concat (map da_band rest)\<rparr>))"
    using v(1) by (simp add: ds l_def)
  define img where "img = \<lparr>da_values = v, da_dims = da_dims d,
      da_band = concat (map da_band all_datasets), da_x = da_x d, da_y = da_y d\<rparr>"
  have dims: "da_dims d = [''band'', ''y'', ''x'']" using d by (simp add: band_y_x_def)
  have "create_predictor_image all_datasets = Inr img"
    unfolding create_predictor_image_def loop
    by (simp add: xr_DataArray_def l_def dims v(2) s_def coord_len_def img_def ds
        length_concat comp_def)
  then show "\<exists>img. create_predictor_image all_datasets = Inr img \<and>
       da_band img = concat (map da_band all_datasets) \<and>
       hd (shape (da_values img)) = sum_list (map (\<lambda>e. length (da_band e)) all_datasets) \<and>
       length (da_band img) = sum_list (map (\<lambda>e. length (da_band e)) all_datasets) \<and>
       da_x img = da_x (hd all_datasets) \<and> da_y img = da_y (hd all_datasets)"
    by (intro exI [of _ img]) (simp add: img_def ds v(2) length_concat comp_def)
qed

theorem create_predictor_image_bands_witness:
  "[elevation_ds, weather_ds] \<noteq> [] \<and>
   band_y_x elevation_ds \<and> band_y_x weather_ds \<and>
   same_spatial elevation_ds elevation_ds \<and> same_spatial elevation_ds weather_ds \<and>
   create_predictor_image [] = Inl UnboundLocalError \<and>
   (\<exists>img. create_predictor_image [elevation_ds, weather_ds] = Inr img \<and>
      da_band img = [''elevation'', ''tmax'', ''tmin''] \<and>
      hd (shape (da_values img)) = 3 \<and>
      da_x img = [150.7, 150.8] \<and> da_y img = [-33.5])"
proof -
  have ne: "[elevation_ds, weather_ds] \<noteq> []" by simp
  have h: "\<forall>e \<in> set [elevation_ds, weather_ds]. band_y_x e \<and> same_spatial (hd [elevation_ds, weather_ds]) e"
    by (simp add: band_y_x_def same_spatial_def elevation_ds_def weather_ds_def)
  from create_predictor_image_bands [OF ne h]
  obtain img where e: "create_predictor_image [] = Inl UnboundLocalError"
    and img: "create_predictor_image [elevation_ds, weather_ds] = Inr img"
      "da_band img = concat (map da_band [elevation_ds, weather_ds])"
      "hd (shape (da_values img)) = sum_list (map (\<lambda>e. length (da_band e)) [elevation_ds, weather_ds])"
      "da_x img = da_x (hd [elevation_ds, weather_ds])"
      "da_y img = da_y (hd [elevation_ds, weather_ds])"
    by blast
  have "da_band img = [''elevation'', ''tmax'', ''tmin'']" "hd (shape (da_values img)) = 3"
    "da_x img = [150.7, 150.8]" "da_y img = [-33.5]"
    using img(2-5) by (simp_all add: elevation_ds_def weather_ds_def)
  moreover have "band_y_x elevation_ds" "band_y_x weather_ds"
    "same_spatial elevation_ds elevation_ds" "same_spatial elevation_ds weather_ds"
    using h by simp_all
  ultimately show ?thesis using ne e img(1) by blast
qed

subsection \<open>Band order of the exported files\<close>

lemma distinct_singleton_set: "distinct l \<Longrightarrow> set l = {a} \<Longrightarrow> l = [a]"
proof (cases l)
  case Nil
  assume "set l = {a}" with Nil show ?thesis by simp
next
  case (Cons b m)
  assume d: "distinct l" and s: "set l = {a}"
  from s Cons have "b = a" by auto
  moreover have "m = []"
  proof (cases m)
    case (Cons c n)
    with \<open>l = b # m\<close> s have "c = a" by auto
    with \<open>b = a\<close> \<open>l = b # m\<close> Cons d show ?thesis by simp
  qed simp
  ultimately show ?thesis using Cons by simp
qed

lemma positions_distinct:
  assumes "distinct xs" "k < length xs"
  shows "positions xs (xs ! k) = [k]"
proof (rule distinct_singleton_set)
  show "distinct (positions xs (xs ! k))" by (simp add: positions_def)
  show "set (positions xs (xs ! k)) = {k}"
    using assms by (auto simp: positions_def nth_eq_iff_index_eq)
qed

lemma sel_band_distinct:
  assumes "distinct (da_band data)" "k < length (da_band data)"
  shows "sel_band data (da_band data ! k) = Inr (plane (da_values data) k)"
  by (simp add: sel_band_def positions_distinct [OF assms])

lemma shape_plane: "shape (plane a k) = tl (shape a)"
  by (simp add: plane_def Let_def)

lemma dem_export_bands:
  assumes "shape elevation = [h, w]" "shape slope = [h, w]"
  shows "\<exists>f. dem_export elevation slope = Inr f \<and> gt_count f = 2 \<and>
           gt_bands f = [1 \<mapsto> elevation, 2 \<mapsto> slope]"
  using assms by (simp add: dem_export_def write_band_def rasterio_open_w_def)

lemma jrc_loop_bands:
  assumes "\<forall>b \<in> set rest. \<exists>img. sel_band data b = Inr img \<and> shape img = [gt_height dst, gt_width dst]"
    and "i + length rest \<le> gt_count dst"
  shows "\<exists>dst'. jrc_loop data i rest dst = Inr dst' \<and> gt_count dst' = gt_count dst \<and>
     gt_bands dst' = (\<lambda>b. if i < b \<and> b \<le> i + length rest
                          then Some (projr (sel_band data (rest ! (b - i - 1))))
                          else gt_bands dst b) \<and>
     gt_descriptions dst' = (\<lambda>b. if i < b \<and> b \<le> i + length rest
                          then Some (rest ! (b - i - 1))
                          else gt_descriptions dst b)"
  using assms
proof (induction rest arbitrary: i dst)
  case Nil
  then show ?case by (auto simp: fun_eq_iff)
next
  case (Cons band rest)
  obtain img where img: "sel_band data band = Inr img" "shape img = [gt_height dst, gt_width dst]"
    using Cons.prems(1) by auto
  define dst2 where "dst2 = dst\<lparr>gt_bands := (gt_bands dst)(i + 1 \<mapsto> img),
     gt_descriptions := (gt_descriptions dst)(i + 1 \<mapsto> band)\<rparr>"
  have step: "jrc_loop data i (band # rest) dst = jrc_loop data (i + 1) rest dst2"
    using img Cons.prems(2)
    by (simp add: write_band_def set_band_description_def dst2_def)
  have "\<exists>dst'. jrc_loop data (i + 1) rest dst2 = Inr dst' \<and> gt_count dst' = gt_count dst2 \<and>
     gt_bands dst' = (\<lambda>b. if i + 1 < b \<and> b \<le> i + 1 + length rest
                          then Some (projr (sel_band data (rest ! (b - (i + 1) - 1))))
                          else gt_bands dst2 b) \<and>
     gt_descriptions dst' = (\<lambda>b. if i + 1 < b \<and> b \<le> i + 1 + length rest
                          then Some (rest ! (b - (i + 1) - 1))
                          else gt_descriptions dst2 b)"
    by (rule Cons.IH) (use Cons.prems in \<open>auto simp: dst2_def\<close>)
  then obtain dst' where d: "jrc_loop data (i + 1) rest dst2 = Inr dst'"
    "gt_count dst' = gt_count dst2"
    "gt_bands dst' = (\<lambda>b. if i + 1 < b \<and> b \<le> i + 1 + length rest
                          then Some (projr (sel_band data (rest ! (b - (i + 1) - 1))))
                          else gt_bands dst2 b)"
    "gt_descriptions dst' = (\<lambda>b. if i + 1 < b \<and> b \<le> i + 1 + length rest
                          then Some (rest ! (b - (i + 1) - 1))
                          else gt_descriptions dst2 b)"
    by blast
  have b: "gt_bands dst' = (\<lambda>b. if i < b \<and> b \<le> i + length (band # rest)
                          then Some (projr (sel_band data ((band # rest) ! (b - i - 1))))
                          else gt_bands dst b)"
  proof
    fix b
    show "gt_bands dst' b = (if i < b \<and> b \<le> i + length (band # rest)
                          then Some (projr (sel_band data ((band # rest) ! (b - i - 1))))
                          else gt_bands dst b)"
    proof (cases "b = i + 1")
      case True
      then show ?thesis by (simp add: d(3) dst2_def img)
    next
      case False
      then show ?thesis by (auto simp: d(3) dst2_def nth_Cons')
    qed
  qed
  have c: "gt_descriptions dst' = (\<lambda>b. if i < b \<and> b \<le> i + length (band # rest)
                          then Some ((band # rest) ! (b - i - 1))
                          else gt_descriptions dst b)"
  proof
    fix b
    show "gt_descriptions dst' b = (if i < b \<and> b \<le> i + length (band # rest)
                          then Some ((band # rest) ! (b - i - 1))
                          else gt_descriptions dst b)"
    proof (cases "b = i + 1")
      case True
      then show ?thesis by (simp add: d(4) dst2_def)
    next
      case False
      then show ?thesis by (auto simp: d(4) dst2_def nth_Cons')
    qed
  qed
  show ?case
    by (rule exI [of _ dst']) (simp only: step d(1) d(2) b c, simp add: dst2_def)
qed

lemma jrc_export_bands:
  assumes wf: "band_y_x data" and dist: "distinct (da_band data)"
    and occ: "''occurrence'' \<in> set (da_band data)"
    and sub: "set cog_assets \<subseteq> set (da_band data)"
    and len: "length cog_assets = length (da_band data)"
  shows "\<exists>g. jrc_export data cog_assets = Inr g \<and> gt_count g = length cog_assets \<and>
     dom (gt_bands g) = {1..length cog_assets} \<and>
     (\<forall>i<length cog_assets. gt_descriptions g (i + 1) = Some (cog_assets ! i) \<and>
        (\<exists>k<length (da_band data). da_band data ! k = cog_assets ! i \<and>
           gt_bands g (i + 1) = Some (plane (da_values data) k)))"
proof -
  define h where "h = length (da_y data)"
  define w where "w = length (da_x data)"
  have sh: "shape (da_values data) = [length (da_band data), h, w]"
    and dims: "da_dims data = [''band'', ''y'', ''x'']"
    using wf by (simp_all add: band_y_x_def h_def w_def)
  have sel: "\<exists>k<length (da_band data). da_band data ! k = b \<and>
              sel_band data b = Inr (plane (da_values data) k)"
    if "b \<in> set (da_band data)" for b
  proof -
    from that obtain k where k: "k < length (da_band data)" "da_band data ! k = b"
      by (auto simp: in_set_conv_nth)
    with sel_band_distinct [OF dist k(1)] show ?thesis by auto
  qed
  from sel [OF occ] obtain k0 where k0: "sel_band data ''occurrence'' = Inr (plane (da_values data) k0)"
    by blast
  define dst0 where "dst0 = rasterio_open_w w h (length cog_assets)"
  define dst where "dst = dst0\<lparr>gt_bands :=
             (\<lambda>b. if 1 \<le> b \<and> b \<le> gt_count dst0 then Some (plane (da_values data) (b - 1))
                  else gt_bands dst0 b)\<rparr>"
  have wa: "write_all dst0 (da_values data) = Inr dst"
    by (simp add: write_all_def dst0_def rasterio_open_w_def sh len dst_def cong: if_cong)
  have ex: "jrc_export data cog_assets = jrc_loop data 0 cog_assets dst"
    using wa by (simp add: jrc_export_def k0 shape_plane sh dst0_def)
  have pre: "\<forall>b \<in> set cog_assets. \<exists>img. sel_band data b = Inr img \<and> shape img = [gt_height dst, gt_width dst]"
  proof
    fix b assume "b \<in> set cog_assets"
    with sub have "b \<in> set (da_band data)" by auto
    from sel [OF this] obtain k where "sel_band data b = Inr (plane (da_values data) k)" by blast
    then show "\<exists>img. sel_band data b = Inr img \<and> shape img = [gt_height dst, gt_width dst]"
      by (simp add: shape_plane sh dst_def dst0_def rasterio_open_w_def)
  qed
  have cnt: "0 + length cog_assets \<le> gt_count dst"
    by (simp add: dst_def dst0_def rasterio_open_w_def)
  from jrc_loop_bands [OF pre cnt]
  obtain g where g: "jrc_loop data 0 cog_assets dst = Inr g" "gt_count g = gt_count dst"
    "gt_bands g = (\<lambda>b. if 0 < b \<and> b \<le> 0 + length cog_assets
                          then Some (projr (sel_band data (cog_assets ! (b - 0 - 1))))
                          else gt_bands dst b)"
    "gt_descriptions g = (\<lambda>b. if 0 < b \<and> b \<le> 0 + length cog_assets
                          then Some (cog_assets ! (b - 0 - 1))
                          else gt_descriptions dst b)"
    by blast
  have dom: "dom (gt_bands g) = {1..length cog_assets}"
    by (auto simp: g(3) dst_def dst0_def rasterio_open_w_def dom_def split: if_splits)
  have each: "gt_descriptions g (i + 1) = Some (cog_assets ! i) \<and>
        (\<exists>k<length (da_band data). da_band data ! k = cog_assets ! i \<and>
           gt_bands g (i + 1) = Some (plane (da_values data) k))" if i: "i < length cog_assets" for i
  proof -
    from i sub have "cog_assets ! i \<in> set (da_band data)" by auto
    from sel [OF this] obtain k where k: "k < length (da_band data)"
      "da_band data ! k = cog_assets ! i" "sel_band data (cog_assets ! i) = Inr (plane (da_values data) k)"
      by blast
    have "gt_bands g (i + 1) = Some (plane (da_values data) k)"
      using i by (simp add: g(3) k(3))
    moreover have "gt_descriptions g (i + 1) = Some (cog_assets ! i)"
      using i by (simp add: g(4))
    ultimately show ?thesis using k(1,2) by blast
  qed
  show ?thesis
    by (rule exI [of _ g]) (use ex g(1,2) dom each in \<open>simp add: dst_def dst0_def rasterio_open_w_def\<close>)
qed

lemma sel_band_member:
  assumes "band_y_x data" "distinct (da_band data)" "b \<in> set (da_band data)"
  shows "\<exists>k<length (da_band data). da_band data ! k = b \<and>
           sel_band data b = Inr (plane (da_values data) k) \<and>
           shape (plane (da_values data) k) = [length (da_y data), length (da_x data)]"
proof -
  from assms(3) obtain k where k: "k < length (da_band data)" "da_band data ! k = b"
    by (auto simp: in_set_conv_nth)
  have "shape (plane (da_values data) k) = [length (da_y data), length (da_x data)]"
    using assms(1) by (simp add: shape_plane band_y_x_def)
  with sel_band_distinct [OF assms(2) k(1)] k show ?thesis by auto
qed

lemma s2_export_bands:
  assumes wf: "band_y_x mosaic" and dist: "distinct (da_band mosaic)"
    and bands: "{''red'', ''green'', ''blue'', ''nir''} \<subseteq> set (da_band mosaic)"
  shows "\<exists>s red green blue nir. s2_export mosaic = Inr s \<and> gt_count s = 4 \<and>
     sel_band mosaic ''red'' = Inr red \<and> sel_band mosaic ''green'' = Inr green \<and>
     sel_band mosaic ''blue'' = Inr blue \<and> sel_band mosaic ''nir'' = Inr nir \<and>
     gt_bands s = [1 \<mapsto> red, 2 \<mapsto> green, 3 \<mapsto> blue, 4 \<mapsto> nir]"
proof -
  define h where "h = length (da_y mosaic)"
  define w where "w = length (da_x mosaic)"
  from bands have m: "''red'' \<in> set (da_band mosaic)" "''green'' \<in> set (da_band mosaic)"
    "''blue'' \<in> set (da_band mosaic)" "''nir'' \<in> set (da_band mosaic)" by simp_all
  from sel_band_member [OF wf dist m(1)] obtain red where
    r: "sel_band mosaic ''red'' = Inr red" "shape red = [h, w]" by (auto simp: h_def w_def)
  from sel_band_member [OF wf dist m(2)] obtain green where
    g: "sel_band mosaic ''green'' = Inr green" "shape green = [h, w]" by (auto simp: h_def w_def)
  from sel_band_member [OF wf dist m(3)] obtain blue where
    b: "sel_band mosaic ''blue'' = Inr blue" "shape blue = [h, w]" by (auto simp: h_def w_def)
  from sel_band_member [OF wf dist m(4)] obtain nir where
    n: "sel_band mosaic ''nir'' = Inr nir" "shape nir = [h, w]" by (auto simp: h_def w_def)
  define s where "s = \<lparr>gt_width = w, gt_height = h, gt_count = 4,
      gt_bands = [1 \<mapsto> red, 2 \<mapsto> green, 3 \<mapsto> blue, 4 \<mapsto> nir], gt_descriptions = Map.empty\<rparr>"
  have "s2_export mosaic = Inr s"
    by (simp add: s2_export_def write_sel_def r g b n write_band_def rasterio_open_w_def s_def)
  with r(1) g(1) b(1) n(1) show ?thesis
    by (intro exI [of _ s] exI [of _ red] exI [of _ green] exI [of _ blue] exI [of _ nir])
       (simp add: s_def)
qed

lemma land_cover_export_band:
  assumes "shape land_cover = [h, w]"
  shows "\<exists>l. land_cover_export land_cover = Inr l \<and> gt_count l = 1 \<and>
           gt_bands l = [1 \<mapsto> land_cover]"
  using assms by (simp add: land_cover_export_def write_band_def rasterio_open_w_def)

text \<open>
  C6. The exported files have a fixed band order. The elevation notebook writes a file of
  exactly two bands, elevation as band 1 and slope as band 2. The surface-water notebook
  writes one band per listed asset in list order: band i + 1 holds the plane of the data
  labelled with asset i, and carries its name as description, whatever the order of the
  bands in the data. The other exports are fixed as well: the Sentinel-2 notebooks write
  red, green, blue and nir as bands 1 to 4, and the land-cover export writes its single
  band.
\<close>

theorem geotiff_band_order:
  assumes "shape elevation = [h, w]" and "shape slope = [h, w]"
    and "band_y_x data" and "distinct (da_band data)"
    and "''occurrence'' \<in> set (da_band data)"
    and "set cog_assets \<subseteq> set (da_band data)"
    and "length cog_assets = length (da_band data)"
    and "band_y_x mosaic" and "distinct (da_band mosaic)"
    and "{''red'', ''green'', ''blue'', ''nir''} \<subseteq> set (da_band mosaic)"
    and "shape land_cover = [lh, lw]"
  shows "(\<exists>f. dem_export elevation slope = Inr f \<and> gt_count f = 2 \<and>
           gt_bands f = [1 \<mapsto> elevation, 2 \<mapsto> slope]) \<and>
    (\<exists>g. jrc_export data cog_assets = Inr g \<and> gt_count g = length cog_assets \<and>
       dom (gt_bands g) = {1..length cog_assets} \<and>
       (\<forall>i<length cog_assets. gt_descriptions g (i + 1) = Some (cog_assets ! i) \<and>
          (\<exists>k<length (da_band data). da_band data ! k = cog_assets ! i \<and>
             gt_bands g (i + 1) = Some (plane (da_values data) k)))) \<and>
    (\<exists>s red green blue nir. s2_export mosaic = Inr s \<and> gt_count s = 4 \<and>
       sel_band mosaic ''red'' = Inr red \<and> sel_band mosaic ''green'' = Inr green \<and>
       sel_band mosaic ''blue'' = Inr blue \<and> sel_band mosaic ''nir'' = Inr nir \<and>
       gt_bands s = [1 \<mapsto> red, 2 \<mapsto> green, 3 \<mapsto> blue, 4 \<mapsto> nir]) \<and>
    (\<exists>l. land_cover_export land_cover = Inr l \<and> gt_count l = 1 \<and>
       gt_bands l = [1 \<mapsto> land_cover])"
  using dem_export_bands [OF assms(1,2)] jrc_export_bands [OF assms(3-7)]
    s2_export_bands [OF assms(8-10)] land_cover_export_band [OF assms(11)]
  by blast

theorem geotiff_band_order_witness:
  "shape elevation_arr = [1, 2] \<and> shape slope_arr = [1, 2] \<and>
   band_y_x water_ds \<and> distinct (da_band water_ds) \<and> ''occurrence'' \<in> set (da_band water_ds) \<and>
   set [''change'', ''occurrence''] \<subseteq> set (da_band water_ds) \<and>
   length [''change'', ''occurrence''] = length (da_band water_ds) \<and>
   band_y_x mosaic_ds \<and> distinct (da_band mosaic_ds) \<and>
   {''red'', ''green'', ''blue'', ''nir''} \<subseteq> set (da_band mosaic_ds) \<and>
   (\<exists>f. dem_export elevation_arr slope_arr = Inr f \<and> gt_count f = 2 \<and>
      gt_bands f 1 = Some elevation_arr \<and> gt_bands f 2 = Some slope_arr) \<and>
   (\<exists>g. jrc_export water_ds [''change'', ''occurrence''] = Inr g \<and> gt_count g = 2 \<and>
      gt_bands g 1 = Some \<lparr>shape = [1, 2], buf = [Fin 1, Fin 2]\<rparr> \<and>
      gt_bands g 2 = Some \<lparr>shape = [1, 2], buf = [Fin 90, Fin 95]\<rparr> \<and>
      gt_descriptions g 1 = Some ''change'' \<and> gt_descriptions g 2 = Some ''occurrence'') \<and>
   (\<exists>s. s2_export mosaic_ds = Inr s \<and> gt_count s = 4 \<and>
      gt_bands s 1 = Some \<lparr>shape = [1, 1], buf = [Fin 4]\<rparr> \<and>
      gt_bands s 4 = Some \<lparr>shape = [1, 1], buf = [Fin 1]\<rparr>) \<and>
   (\<exists>l. land_cover_export slope_arr = Inr l \<and> gt_count l = 1 \<and>
      gt_bands l 1 = Some slope_arr)"
proof -
  have a: "shape elevation_arr = [1, 2]" "shape slope_arr = [1, 2]"
    by (simp_all add: elevation_arr_def slope_arr_def)
  have b: "band_y_x water_ds" "distinct (da_band water_ds)" "''occurrence'' \<in> set (da_band water_ds)"
    "set [''change'', ''occurrence''] \<subseteq> set (da_band water_ds)"
    "length [''change'', ''occurrence''] = length (da_band water_ds)"
    by (simp_all add: water_ds_def band_y_x_def)
  have c: "band_y_x mosaic_ds" "distinct (da_band mosaic_ds)"
    "{''red'', ''green'', ''blue'', ''nir''} \<subseteq> set (da_band mosaic_ds)"
    by (simp_all add: mosaic_ds_def band_y_x_def)
  from geotiff_band_order [OF a b c a(2)]
  obtain f g s red nir l where f: "dem_export elevation_arr slope_arr = Inr f" "gt_count f = 2"
      "gt_bands f = [1 \<mapsto> elevation_arr, 2 \<mapsto> slope_arr]"
    and g: "jrc_export water_ds [''change'', ''occurrence''] = Inr g"
      "gt_count g = length [''change'', ''occurrence'']"
      "\<forall>i<length [''change'', ''occurrence'']. gt_descriptions g (i + 1) = Some ([''change'', ''occurrence''] ! i) \<and>
          (\<exists>k<length (da_band water_ds). da_band water_ds ! k = [''change'', ''occurrence''] ! i \<and>
             gt_bands g (i + 1) = Some (plane (da_values water_ds) k))"
    and s: "s2_export mosaic_ds = Inr s" "gt_count s = 4"
      "sel_band mosaic_ds ''red'' = Inr red" "sel_band mosaic_ds ''nir'' = Inr nir"
      "gt_bands s 1 = Some red" "gt_bands s 4 = Some nir"
    and l: "land_cover_export slope_arr = Inr l" "gt_count l = 1" "gt_bands l = [1 \<mapsto> slope_arr]"
    by auto
  have f12: "gt_bands f 1 = Some elevation_arr" "gt_bands f 2 = Some slope_arr"
    by (simp_all add: f(3))
  have k: "k = 1" if "k < length (da_band water_ds)" "da_band water_ds ! k = ''change''" for k
    using that by (cases k) (simp_all add: water_ds_def)
  have k': "k = 0" if "k < length (da_band water_ds)" "da_band water_ds ! k = ''occurrence''" for k
    using that by (cases k) (simp_all add: water_ds_def)
  have i0: "(0::nat) < length [''change'', ''occurrence'']"
    and i1: "(1::nat) < length [''change'', ''occurrence'']"
    by simp_all
  from g(3) [rule_format, OF i0]
  obtain k1 where k1: "gt_descriptions g (0 + 1) = Some ([''change'', ''occurrence''] ! 0)"
    "k1 < length (da_band water_ds)" "da_band water_ds ! k1 = [''change'', ''occurrence''] ! 0"
    "gt_bands g (0 + 1) = Some (plane (da_values water_ds) k1)"
    by blast
  have "k1 = 1" using k [OF k1(2)] k1(3) by simp
  with k1(1,4) have g1: "gt_descriptions g 1 = Some ''change''"
    "gt_bands g 1 = Some (plane (da_values water_ds) 1)"
    by simp_all
  from g(3) [rule_format, OF i1]
  obtain k2 where k2: "gt_descriptions g (1 + 1) = Some ([''change'', ''occurrence''] ! 1)"
    "k2 < length (da_band water_ds)" "da_band water_ds ! k2 = [''change'', ''occurrence''] ! 1"
    "gt_bands g (1 + 1) = Some (plane (da_values water_ds) k2)"
    by blast
  have "k2 = 0" using k' [OF k2(2)] k2(3) by simp
  with k2(1,4) have g2: "gt_descriptions g 2 = Some ''occurrence''"
    "gt_bands g 2 = Some (plane (da_values water_ds) 0)"
    by (simp_all add: numeral_2_eq_2)
  have p: "plane (da_values water_ds) 1 = \<lparr>shape = [1, 2], buf = [Fin 1, Fin 2]\<rparr>"
    "plane (da_values water_ds) 0 = \<lparr>shape = [1, 2], buf = [Fin 90, Fin 95]\<rparr>"
    by (simp_all add: plane_def water_ds_def)
  have u4: "[0..<4] = [0, 1, 2, 3]" by code_simp
  have "sel_band mosaic_ds ''red'' = Inr \<lparr>shape = [1, 1], buf = [Fin 4]\<rparr>"
    "sel_band mosaic_ds ''nir'' = Inr \<lparr>shape = [1, 1], buf = [Fin 1]\<rparr>"
    by (simp_all add: sel_band_def positions_def mosaic_ds_def plane_def u4)
  with s(3,4) have rn: "red = \<lparr>shape = [1, 1], buf = [Fin 4]\<rparr>" "nir = \<lparr>shape = [1, 1], buf = [Fin 1]\<rparr>"
    by simp_all
  have l1: "gt_bands l 1 = Some slope_arr" by (simp add: l(3))
  show ?thesis
    using a b c f(1,2) f12 g(1,2) g1 g2 p s(1,2,5,6) rn l(1,2) l1 by auto
qed

subsection \<open>The retry of the extraction loop\<close>

lemma extract_step_frogs:
  "\<exists>rows. st_frogs (outcome_state (extract_step env i st)) = st_frogs st @ rows"
  by (auto simp: extract_step_def outcome_state_def Let_def split: sum.splits)

lemma extract_step_computes:
  "computes_of j (st_calls (outcome_state (extract_step env i st)))
     \<le> computes_of j (st_calls st) + (if j = i then 2 else 0)"
  by (auto simp: extract_step_def outcome_state_def computes_of_def Let_def split: sum.splits)

lemma extract_loop_frogs:
  "\<exists>rows. st_frogs (outcome_state (extract_loop env is st)) = st_frogs st @ rows"
proof (induction "is" arbitrary: st)
  case Nil
  show ?case by (simp add: outcome_state_def)
next
  case (Cons i rest)
  show ?case
  proof (cases "extract_step env i st")
    case (Inl failure)
    with extract_step_frogs [of env i st] show ?thesis by simp
  next
    case (Inr st')
    with extract_step_frogs [of env i st] obtain r1 where "st_frogs st' = st_frogs st @ r1"
      by (auto simp: outcome_state_def)
    moreover from Cons.IH [of st'] obtain r2 where
      "st_frogs (outcome_state (extract_loop env rest st')) = st_frogs st' @ r2" by blast
    ultimately show ?thesis using Inr by simp
  qed
qed

lemma extract_loop_computes:
  "distinct is \<Longrightarrow>
   computes_of j (st_calls (outcome_state (extract_loop env is st)))
     \<le> computes_of j (st_calls st) + (if j \<in> set is then 2 else 0)"
proof (induction "is" arbitrary: st)
  case Nil
  show ?case by (simp add: outcome_state_def)
next
  case (Cons i rest)
  show ?case
  proof (cases "extract_step env i st")
    case (Inl failure)
    with extract_step_computes [of j env i st] show ?thesis by (auto split: if_splits)
  next
    case (Inr st')
    with extract_step_computes [of j env i st]
    have 1: "computes_of j (st_calls st') \<le> computes_of j (st_calls st) + (if j = i then 2 else 0)"
      by (simp add: outcome_state_def)
    from Cons have 2: "computes_of j (st_calls (outcome_state (extract_loop env rest st')))
       \<le> computes_of j (st_calls st') + (if j \<in> set rest then 2 else 0)"
      by simp
    from Cons.prems have "i \<notin> set rest" by simp
    with 1 2 Inr show ?thesis by (auto split: if_splits)
  qed
qed

text \<open>
  C4. When computing a selected partition raises an exception, whichever it is, the loop
  signs the dataset again and computes that same partition once more, through the new
  handle. If the second computation succeeds its rows are appended to the records
  accumulated so far; if signing or the second computation raises, that exception leaves
  the loop and the accumulated records are as they were before the partition. Over a whole
  run the records accumulated at the start stay a prefix of the result, and no partition
  is computed more than twice.
\<close>

theorem extraction_retries_once:
  assumes drawn: "random_draw env i"
    and failed: "compute_partition env (length (st_calls st)) (st_df st) i = Inl e"
  shows "(case resign_planetary_computer env (length (st_calls st) + 1) of
            Inl e1 \<Rightarrow>
              extract_step env i st =
                Inl (e1, st\<lparr>st_calls := st_calls st @ [Compute (st_df st) i, Sign]\<rparr>)
          | Inr h \<Rightarrow>
              (case compute_partition env (length (st_calls st) + 2) h i of
                 Inl e2 \<Rightarrow>
                   extract_step env i st =
                     Inl (e2, st\<lparr>st_df := h,
                                 st_calls := st_calls st @ [Compute (st_df st) i, Sign, Compute h i]\<rparr>)
               | Inr rows \<Rightarrow>
                   extract_step env i st =
                     Inr (st\<lparr>st_df := h, st_frogs := st_frogs st @ rows,
                             st_calls := st_calls st @ [Compute (st_df st) i, Sign, Compute h i]\<rparr>)))
     \<and> (\<exists>rows. st_frogs (outcome_state (extract_loop env (i # rest) st)) = st_frogs st @ rows)
     \<and> (distinct (i # rest) \<longrightarrow>
          (\<forall>j. computes_of j (st_calls (outcome_state (extract_loop env (i # rest) st)))
                 \<le> computes_of j (st_calls st) + 2))"
proof (intro conjI)
  show "case resign_planetary_computer env (length (st_calls st) + 1) of
            Inl e1 \<Rightarrow>
              extract_step env i st =
                Inl (e1, st\<lparr>st_calls := st_calls st @ [Compute (st_df st) i, Sign]\<rparr>)
          | Inr h \<Rightarrow>
              (case compute_partition env (length (st_calls st) + 2) h i of
                 Inl e2 \<Rightarrow>
                   extract_step env i st =
                     Inl (e2, st\<lparr>st_df := h,
                                 st_calls := st_calls st @ [Compute (st_df st) i, Sign, Compute h i]\<rparr>)
               | Inr rows \<Rightarrow>
                   extract_step env i st =
                     Inr (st\<lparr>st_df := h, st_frogs := st_frogs st @ rows,
                             st_calls := st_calls st @ [Compute (st_df st) i, Sign, Compute h i]\<rparr>))"
    using drawn failed by (simp add: extract_step_def Let_def split: sum.splits)
  show "\<exists>rows. st_frogs (outcome_state (extract_loop env (i # rest) st)) = st_frogs st @ rows"
    by (rule extract_loop_frogs)
  show "distinct (i # rest) \<longrightarrow>
          (\<forall>j. computes_of j (st_calls (outcome_state (extract_loop env (i # rest) st)))
                 \<le> computes_of j (st_calls st) + 2)"
  proof (intro impI allI)
    fix j assume d: "distinct (i # rest)"
    have "computes_of j (st_calls (outcome_state (extract_loop env (i # rest) st)))
       \<le> computes_of j (st_calls st) + (if j \<in> set (i # rest) then 2 else 0)"
      by (rule extract_loop_computes [OF d])
    then show "computes_of j (st_calls (outcome_state (extract_loop env (i # rest) st)))
       \<le> computes_of j (st_calls st) + 2"
      by (simp split: if_splits)
  qed
qed

theorem extraction_retries_once_witness:
  "random_draw expiring_env 0 \<and>
   compute_partition expiring_env (length (st_calls fresh_state)) (st_df fresh_state) 0 = Inl RequestError \<and>
   distinct [0, 1 :: nat] \<and>
   extract_step expiring_env 0 fresh_state =
     Inr \<lparr>st_df = 1, st_frogs = [frog_inside], st_calls = [Compute 0 0, Sign, Compute 1 0]\<rparr> \<and>
   extract_frogs expiring_env 2 0 =
     Inr \<lparr>st_df = 1, st_frogs = [frog_inside, frog_on_edge],
          st_calls = [Compute 0 0, Sign, Compute 1 0, Compute 1 1]\<rparr> \<and>
   computes_of 0 (st_calls (outcome_state (extract_loop expiring_env [0, 1] fresh_state))) = 2"
proof -
  have a: "random_draw expiring_env 0"
    and b: "compute_partition expiring_env (length (st_calls fresh_state)) (st_df fresh_state) 0 = Inl RequestError"
    by (simp_all add: expiring_env_def fresh_state_def)
  have s: "extract_step expiring_env 0 fresh_state =
     Inr \<lparr>st_df = 1, st_frogs = [frog_inside], st_calls = [Compute 0 0, Sign, Compute 1 0]\<rparr>"
    using extraction_retries_once [OF a b, of "[1]"]
    by (simp add: expiring_env_def fresh_state_def)
  have s2: "extract_step expiring_env 1
       \<lparr>st_df = 1, st_frogs = [frog_inside], st_calls = [Compute 0 0, Sign, Compute 1 0]\<rparr> =
     Inr \<lparr>st_df = 1, st_frogs = [frog_inside, frog_on_edge],
          st_calls = [Compute 0 0, Sign, Compute 1 0, Compute 1 1]\<rparr>"
    by (simp add: extract_step_def expiring_env_def)
  have l: "extract_loop expiring_env [0, 1] fresh_state =
     Inr \<lparr>st_df = 1, st_frogs = [frog_inside, frog_on_edge],
          st_calls = [Compute 0 0, Sign, Compute 1 0, Compute 1 1]\<rparr>"
    using s s2 by simp
  have u: "[0..<2] = [0, 1 :: nat]" by (simp add: upt_rec)
  have e: "extract_frogs expiring_env 2 0 =
     Inr \<lparr>st_df = 1, st_frogs = [frog_inside, frog_on_edge],
          st_calls = [Compute 0 0, Sign, Compute 1 0, Compute 1 1]\<rparr>"
    using l by (simp add: extract_frogs_def u fresh_state_def)
  have c: "computes_of 0 (st_calls (outcome_state (extract_loop expiring_env [0, 1] fresh_state))) = 2"
    unfolding l by (simp add: outcome_state_def computes_of_def)
  show ?thesis using a b s e c by simp
qed

subsection \<open>Slope in percent\<close>

lemma upt3: "[0..<3] = [0, 1, 2]" by code_simp
lemma upt2: "[0..<2] = [0, 1]" by code_simp
lemma upt1: "[0..<1] = [0]" by code_simp

lemma sum_less3: "(\<Sum>a<(3::nat). f a) = f 0 + f 1 + (f 2 :: real)"
  by (simp add: numeral_3_eq_3 numeral_2_eq_2)

lemma three_div_two: "(3::nat) div 2 = 1"
  by simp

lemma reflect_less: "0 < n \<Longrightarrow> reflect k n < n"
proof -
  assume n: "0 < n"
  define m where "m = k mod (2 * int n)"
  have "0 \<le> m" "m < 2 * int n" using n by (simp_all add: m_def)
  then show ?thesis unfolding reflect_def Let_def m_def [symmetric] by auto
qed

lemma grid_index: "i < ny \<Longrightarrow> j < nx \<Longrightarrow> i * nx + j < ny * (nx::nat)"
proof -
  assume i: "i < ny" and j: "j < nx"
  have "i * nx + j < i * nx + nx" using j by simp
  also have "\<dots> = Suc i * nx" by simp
  also have "\<dots> \<le> ny * nx" using i by (intro mult_le_mono1) simp
  finally show ?thesis .
qed

lemma grid_shape: "grid ny nx a \<Longrightarrow> shape a ! 0 = ny \<and> shape a ! 1 = nx"
  by (simp add: grid_def)

lemma at2_map:
  assumes "i < ny" "j < nx"
  shows "at2 \<lparr>shape = [ny, nx], buf = map (\<lambda>k. f (k div nx) (k mod nx)) [0..<ny * nx]\<rparr> i j = f i j"
  using assms grid_index [OF assms] by (simp add: at2_def)

lemma convolve_grid:
  assumes "grid ny nx dem"
  shows "convolve dem w =
     Inr \<lparr>shape = [ny, nx], buf = map (\<lambda>k. conv_at dem w (k div nx) (k mod nx)) [0..<ny * nx]\<rparr>"
  using assms by (simp add: convolve_def grid_def)

lemma slope_pct_grid:
  assumes "grid ny nx dem"
  shows "slope_pct dem resolution =
     Inr \<lparr>shape = [ny, nx], buf = map (\<lambda>k. slope_at dem resolution (k div nx) (k mod nx)) [0..<ny * nx]\<rparr>"
  by (simp add: slope_pct_def convolve_grid [OF assms] np_div_def np_mul_def np_add_def
      np_square_def np_sqrt_def zip_map_map zip_same_conv_map o_def slope_at_def)

lemma at2_finite:
  assumes g: "grid ny nx dem" and f: "finite_array dem" and i: "i < ny" and j: "j < nx"
  shows "at2 dem (reflect p ny) (reflect q nx) = Fin (elev dem p q)"
proof -
  have "reflect p ny < ny" "reflect q nx < nx" using i j by (simp_all add: reflect_less)
  then have "reflect p ny * nx + reflect q nx < length (buf dem)"
    using g grid_index by (simp add: grid_def)
  then have "buf dem ! (reflect p ny * nx + reflect q nx) \<in> set (buf dem)" by simp
  with f have "is_fin (buf dem ! (reflect p ny * nx + reflect q nx))"
    by (simp add: finite_array_def list_all_iff)
  then have "is_fin (at2 dem (reflect p ny) (reflect q nx))"
    using g by (simp add: at2_def grid_def)
  then show ?thesis
    using g by (cases "at2 dem (reflect p ny) (reflect q nx)") (simp_all add: elev_def grid_def)
qed

lemma conv_at_dx:
  assumes g: "grid ny nx dem" and f: "finite_array dem" and i: "i < ny" and j: "j < nx"
  shows "conv_at dem dx_kernel i j = Fin (convolution3 dx_kernel dem i j)"
  using grid_shape [OF g]
  by (simp add: conv_at_def dx_kernel_def Let_def upt3 at2_finite [OF g f i j]
      convolution3_def sum_less3 three_div_two algebra_simps)

lemma conv_at_dy:
  assumes g: "grid ny nx dem" and f: "finite_array dem" and i: "i < ny" and j: "j < nx"
  shows "conv_at dem dy_kernel i j = Fin (convolution3 dy_kernel dem i j)"
  using grid_shape [OF g]
  by (simp add: conv_at_def dy_kernel_def Let_def upt3 at2_finite [OF g f i j]
      convolution3_def sum_less3 three_div_two algebra_simps)

lemma slope_at_finite:
  assumes g: "grid ny nx dem" and f: "finite_array dem" and r: "r \<noteq> 0"
    and i: "i < ny" and j: "j < nx"
  shows "slope_at dem (Fin r) i j = Fin (slope_formula dem r i j)"
proof -
  define gx where "gx = convolution3 dx_kernel dem i j / (8 * r)"
  define gy where "gy = convolution3 dy_kernel dem i j / (8 * r)"
  have nn: "\<not> gx * gx + gy * gy < 0"
    by (simp add: not_less)
  have "slope_at dem (Fin r) i j = fmul (fsqrt (fadd (fsquare (Fin gx)) (fsquare (Fin gy)))) (Fin 100)"
    using r by (simp add: slope_at_def conv_at_dx [OF g f i j] conv_at_dy [OF g f i j] gx_def gy_def)
  also have "\<dots> = Fin (sqrt (gx * gx + gy * gy) * 100)"
    using nn by (simp add: fsquare_def)
  also have "\<dots> = Fin (slope_formula dem r i j)"
    by (simp add: slope_formula_def Let_def gx_def gy_def power2_eq_square)
  finally show ?thesis .
qed

lemma sqrt_16: "sqrt 16 = 4"
  by (rule real_sqrt_unique) simp_all

lemma ramp_formula: "slope_formula ramp 1 0 1 = 400"
  by (simp add: slope_formula_def convolution3_def sum_less3 dx_kernel_def dy_kernel_def
      elev_def ramp_def at2_def reflect_def Let_def sqrt_16)

text \<open>
  C2. For every finite elevation grid and every nonzero resolution, \<open>slope_pct\<close> returns
  a grid of the same shape whose value at each pixel is \<open>sqrt (dx\<^sup>2 + dy\<^sup>2) \<sqdot> 100\<close>, where
  \<open>dx\<close> is the convolution of the grid with the kernel \<open>[[1,0,-1],[2,0,-2],[1,0,-1]]\<close>
  divided by \<open>8 \<sqdot> resolution\<close>, and \<open>dy\<close> the convolution with
  \<open>[[1,2,1],[0,0,0],[-1,-2,-1]]\<close> divided by \<open>8 \<sqdot> resolution\<close>.
\<close>

theorem slope_pct_formula:
  assumes "grid ny nx dem" and "finite_array dem" and "resolution \<noteq> 0"
    and "i < ny" and "j < nx"
  shows "\<exists>out. slope_pct dem (Fin resolution) = Inr out \<and> shape out = [ny, nx] \<and>
           at2 out i j = Fin (slope_formula dem resolution i j)"
  using assms
  by (simp add: slope_pct_grid [OF assms(1)] at2_map slope_at_finite)

theorem slope_pct_formula_witness:
  "grid 1 2 ramp \<and> finite_array ramp \<and> (1::real) \<noteq> 0 \<and> (0::nat) < 1 \<and> (1::nat) < 2 \<and>
   (\<exists>out. slope_pct ramp (Fin 1) = Inr out \<and> shape out = [1, 2] \<and> at2 out 0 1 = Fin 400)"
proof -
  have g: "grid 1 2 ramp" and f: "finite_array ramp"
    by (simp_all add: grid_def finite_array_def ramp_def)
  have r: "(1::real) \<noteq> 0" and i: "(0::nat) < 1" and j: "(1::nat) < 2" by simp_all
  from slope_pct_formula [OF g f r i j] ramp_formula g f show ?thesis by simp
qed

lemma hypot_not_negative:
  "\<not> flt (fmul (fsqrt (fadd (fsquare a) (fsquare b))) (Fin 100)) (Fin 0)"
  by (cases a; cases b) (auto simp: fsquare_def not_less)

lemma slope_at_not_negative: "\<not> flt (slope_at dem resolution i j) (Fin 0)"
  unfolding slope_at_def by (rule hypot_not_negative)

lemma slope_formula_nonneg: "0 \<le> slope_formula dem r i j"
  by (simp add: slope_formula_def Let_def)

text \<open>
  C10, as the code has it. For every two-dimensional elevation array and every resolution
  \<open>slope_pct\<close> returns an array of the same shape, and no value of it is negative: each
  is nonnegative or NaN. When the elevations are finite and the resolution is finite and
  not zero, every value is finite and nonnegative.
\<close>

theorem slope_pct_total_nonnegative:
  assumes g: "grid ny nx dem"
  shows "\<exists>out. slope_pct dem resolution = Inr out \<and> grid ny nx out \<and>
           (\<forall>v \<in> set (buf out). \<not> flt v (Fin 0)) \<and>
           (finite_array dem \<longrightarrow>
              (\<forall>r. resolution = Fin r \<longrightarrow> r \<noteq> 0 \<longrightarrow>
                 (\<forall>v \<in> set (buf out). is_fin v \<and> fle (Fin 0) v)))"
proof -
  define out where "out = \<lparr>shape = [ny, nx],
     buf = map (\<lambda>k. slope_at dem resolution (k div nx) (k mod nx)) [0..<ny * nx]\<rparr>"
  have 1: "slope_pct dem resolution = Inr out"
    unfolding out_def by (rule slope_pct_grid [OF g])
  have 2: "grid ny nx out" by (simp add: grid_def out_def)
  have 3: "\<forall>v \<in> set (buf out). \<not> flt v (Fin 0)"
    by (auto simp: out_def slope_at_not_negative)
  have 4: "is_fin v \<and> fle (Fin 0) v"
    if f: "finite_array dem" and r: "resolution = Fin r" "r \<noteq> 0" and v: "v \<in> set (buf out)" for r v
  proof -
    from v obtain k where k: "k < ny * nx" "v = slope_at dem resolution (k div nx) (k mod nx)"
      by (auto simp: out_def)
    from k(1) have "0 < nx" by (cases nx) simp_all
    with k(1) have i: "k div nx < ny" and j: "k mod nx < nx"
      by (simp_all add: less_mult_imp_div_less)
    have "v = Fin (slope_formula dem r (k div nx) (k mod nx))"
      unfolding k(2) r(1) by (rule slope_at_finite [OF g f r(2) i j])
    then show ?thesis
      using slope_formula_nonneg [of dem r "k div nx" "k mod nx"] by (auto simp: fle_def)
  qed
  show ?thesis
    by (rule exI [of _ out]) (use 1 2 3 4 in blast)
qed

theorem slope_pct_total_nonnegative_witness:
  "grid 1 2 ramp \<and> finite_array ramp \<and>
   slope_pct ramp (Fin 1) = Inr \<lparr>shape = [1, 2], buf = [Fin 400, Fin 400]\<rparr> \<and>
   \<not> flt (Fin 400) (Fin 0) \<and> is_fin (Fin 400) \<and> fle (Fin 0) (Fin 400)"
proof -
  have g: "grid 1 2 ramp" and f: "finite_array ramp"
    by (simp_all add: grid_def finite_array_def ramp_def)
  have e: "slope_pct ramp (Fin 1) = Inr \<lparr>shape = [1, 2], buf = [Fin 400, Fin 400]\<rparr>"
    by (simp add: slope_pct_def convolve_def conv_at_def dx_kernel_def dy_kernel_def at2_def
      reflect_def Let_def upt3 upt2 upt1 np_div_def np_mul_def np_add_def np_square_def np_sqrt_def
      fsquare_def ramp_def sqrt_16)
  from slope_pct_total_nonnegative [OF g, of "Fin 1"] e f
  have "\<forall>v \<in> set [Fin 400, Fin 400]. \<not> flt v (Fin 0) \<and> is_fin v \<and> fle (Fin 0) v"
    by auto
  then have "\<not> flt (Fin 400) (Fin 0) \<and> is_fin (Fin 400) \<and> fle (Fin 0) (Fin 400)"
    by simp
  with g f e show ?thesis by blast
qed

text \<open>
  C10 does not hold for every resolution: with the resolution 0 a flat grid gives
  \<open>0 / 0\<close>, which is NaN, and NaN is not nonnegative.
\<close>

theorem slope_pct_zero_resolution_counterexample:
  "slope_pct flat (Fin 0) = Inr \<lparr>shape = [1, 1], buf = [NaN]\<rparr> \<and> \<not> fle (Fin 0) NaN"
  by (simp add: slope_pct_def convolve_def conv_at_def dx_kernel_def dy_kernel_def at2_def
      reflect_def Let_def upt3 upt1 np_div_def np_mul_def np_add_def np_square_def np_sqrt_def
      fsquare_def flat_def fle_def)

subsection \<open>The median mosaic\<close>

lemma insort_fkey: "insort_key fkey (Fin r) (map Fin ys) = map Fin (insort r ys)"
  by (induction ys) simp_all

lemma sort_fkey: "sort_key fkey (map Fin rs) = map Fin (sort rs)"
  by (induction rs) (simp_all add: insort_fkey)

lemma finite_not_nan:
  "list_all (\<lambda>v. is_fin v \<or> v = NaN) vs \<Longrightarrow>
   filter (\<lambda>v. v \<noteq> NaN) vs = map Fin (map fin_val (filter (\<lambda>v. v \<noteq> NaN) vs))"
proof (induction vs)
  case Nil
  show ?case by simp
next
  case (Cons v vs)
  then show ?case by (cases v) simp_all
qed

lemma nanmedian_finite:
  assumes "list_all (\<lambda>v. is_fin v \<or> v = NaN) vs"
  shows "nanmedian vs =
     (let rs = map fin_val (filter (\<lambda>v. v \<noteq> NaN) vs)
      in if rs = [] then NaN else Fin (median rs))"
proof -
  define rs where "rs = map fin_val (filter (\<lambda>v. v \<noteq> NaN) vs)"
  define s where "s = sort rs"
  have f: "filter (\<lambda>v. v \<noteq> NaN) vs = map Fin rs"
    unfolding rs_def by (rule finite_not_nan [OF assms])
  have n: "nanmedian vs =
     (if length s = 0 then NaN
      else if odd (length s) then map Fin s ! (length s div 2)
      else fdiv (fadd (map Fin s ! (length s div 2 - 1)) (map Fin s ! (length s div 2))) (Fin 2))"
    by (simp only: nanmedian_def f sort_fkey s_def [symmetric] Let_def length_map)
  have l: "length s = length rs" by (simp add: s_def)
  show ?thesis
  proof (cases "rs = []")
    case True
    then show ?thesis using n l by (simp add: rs_def [symmetric])
  next
    case False
    then have pos: "0 < length s" using l by simp
    then have k: "length s div 2 < length s" by simp
    show ?thesis
    proof (cases "odd (length s)")
      case True
      then show ?thesis
        using n pos k False l by (simp add: rs_def [symmetric] median_def s_def [symmetric] Let_def)
    next
      case False
      have k1: "length s div 2 - 1 < length s" using pos by arith
      from False have ev: "even (length rs)" using l by simp
      show ?thesis
        using n pos k k1 False \<open>rs \<noteq> []\<close> ev
        by (simp add: rs_def [symmetric] median_def s_def [symmetric] Let_def l)
    qed
  qed
qed

lemma feq_iff: "feq v n \<longleftrightarrow> v = n \<and> v \<noteq> NaN"
  by (cases v; cases n) simp_all

lemma filter_masked:
  "filter (\<lambda>v. v \<noteq> NaN) (map (\<lambda>v. if \<not> feq v n then v else NaN) vs)
     = filter (\<lambda>v. v \<noteq> NaN \<and> v \<noteq> n) vs"
  by (induction vs) (auto simp: feq_iff)

lemma masked_finite:
  "list_all (\<lambda>v. is_fin v \<or> v = NaN) vs \<Longrightarrow>
   list_all (\<lambda>v. is_fin v \<or> v = NaN) (map (\<lambda>v. if \<not> feq v n then v else NaN) vs)"
  by (induction vs) auto

lemma time_series_masked:
  assumes "shape data = nt # rest" "length (buf data) = nt * prod_list rest" "p < prod_list rest"
  shows "time_series (np_where_ne data n) p
           = map (\<lambda>v. if \<not> feq v n then v else NaN) (time_series data p)"
proof -
  have "t * prod_list rest + p < length (buf data)" if "t < nt" for t
    using that assms(2,3) grid_index [of t nt p "prod_list rest"] by simp
  then show ?thesis
    by (simp add: time_series_def np_where_ne_def assms(1))
qed

lemma time_series_finite:
  assumes "shape data = nt # rest" "length (buf data) = nt * prod_list rest" "p < prod_list rest"
    and "finite_or_nan data"
  shows "list_all (\<lambda>v. is_fin v \<or> v = NaN) (time_series data p)"
proof -
  have "buf data ! (t * prod_list rest + p) \<in> set (buf data)" if "t < nt" for t
    using that assms(2,3) grid_index [of t nt p "prod_list rest"] by simp
  then show ?thesis
    using assms(4) by (auto simp: time_series_def assms(1) finite_or_nan_def list_all_iff)
qed

lemma median_time_pixel:
  assumes sh: "shape data = nt # rest" and len: "length (buf data) = nt * prod_list rest"
    and p: "p < prod_list rest" and fin: "finite_or_nan data"
  shows "\<exists>m. median_time (case na_val of None \<Rightarrow> data | Some v \<Rightarrow> np_where_ne data v) = Inr m \<and>
           shape m = rest \<and>
           buf m ! p = (let vs = valid_values na_val (time_series data p)
                        in if vs = [] then NaN else Fin (median vs))"
proof (cases na_val)
  case None
  have "nanmedian (time_series data p) =
      (let vs = valid_values None (time_series data p) in if vs = [] then NaN else Fin (median vs))"
    using nanmedian_finite [OF time_series_finite [OF sh len p fin]]
    by (simp add: valid_values_def)
  then show ?thesis using None p by (simp add: median_time_def sh)
next
  case (Some n)
  have sh': "shape (np_where_ne data n) = nt # rest" by (simp add: np_where_ne_def sh)
  have "nanmedian (time_series (np_where_ne data n) p) =
      (let vs = valid_values (Some n) (time_series data p) in if vs = [] then NaN else Fin (median vs))"
    unfolding time_series_masked [OF sh len p]
    using nanmedian_finite [OF masked_finite [OF time_series_finite [OF sh len p fin], of n]]
    by (simp add: valid_values_def filter_masked)
  then show ?thesis using Some p by (simp add: median_time_def sh')
qed

text \<open>
  C5. For a product other than terraclimate, \<open>get_pc\<close> returns a composite of the shape
  (band, y, x) of the stacked scenes in which every pixel is the median, over the time
  dimension, of the values of the stacked scenes at that pixel, the no-data values
  skipped: the NaN values, and the values equal to \<open>na_val\<close> when one is given, which the
  function turns into NaN first. A pixel without any value is NaN. The values of the
  scenes are finite or NaN.
\<close>

theorem get_pc_median_mosaic:
  assumes "product \<noteq> ''terraclimate''"
    and "stackstac_stack env (map sign_item (stac_search env (pc_search product bbox pc_query date_range)))
           assets (resolution / 111320) bbox = Inr data"
    and "shape data = [nt, nb, ny, nx]" and "length (buf data) = nt * (nb * ny * nx)"
    and "finite_or_nan data" and "p < nb * ny * nx"
  shows "\<exists>r. get_pc env product bbox assets resolution pc_query date_range na_val = Inr r \<and>
           shape (pc_data r) = [nb, ny, nx] \<and>
           buf (pc_data r) ! p =
             (let vs = valid_values na_val (time_series data p)
              in if vs = [] then NaN else Fin (median vs))"
proof -
  have len: "length (buf data) = nt * prod_list [nb, ny, nx]"
    and p: "p < prod_list [nb, ny, nx]"
    using assms(4,6) by (simp_all add: mult.assoc)
  from median_time_pixel [OF assms(3) len p assms(5), of na_val]
  obtain m where m: "median_time (case na_val of None \<Rightarrow> data | Some v \<Rightarrow> np_where_ne data v) = Inr m"
    "shape m = [nb, ny, nx]"
    "buf m ! p = (let vs = valid_values na_val (time_series data p)
                        in if vs = [] then NaN else Fin (median vs))"
    by blast
  show ?thesis
    using assms(1,2) m by (simp add: get_pc_def Let_def)
qed

theorem get_pc_median_mosaic_witness:
  "''sentinel-2-l2a'' \<noteq> ''terraclimate'' \<and>
   stackstac_stack catalog_env
     (map sign_item (stac_search catalog_env (pc_search ''sentinel-2-l2a'' richmond_box None None)))
     (MediaTypes [''image/tiff'']) (10 / 111320) richmond_box = Inr scenes \<and>
   shape scenes = [3, 1, 1, 2] \<and> length (buf scenes) = 3 * (1 * 1 * 2) \<and>
   finite_or_nan scenes \<and> (0::nat) < 1 * 1 * 2 \<and>
   (\<exists>r. get_pc catalog_env ''sentinel-2-l2a'' richmond_box (MediaTypes [''image/tiff'']) 10
          None None (Some (Fin 0)) = Inr r \<and>
        shape (pc_data r) = [1, 1, 2] \<and> buf (pc_data r) ! 0 = Fin 3)"
proof -
  have a: "''sentinel-2-l2a'' \<noteq> ''terraclimate''" by simp
  have b: "stackstac_stack catalog_env
     (map sign_item (stac_search catalog_env (pc_search ''sentinel-2-l2a'' richmond_box None None)))
     (MediaTypes [''image/tiff'']) (10 / 111320) richmond_box = Inr scenes"
    by (simp add: catalog_env_def)
  have c: "shape scenes = [3, 1, 1, 2]" "length (buf scenes) = 3 * (1 * 1 * 2)"
    "finite_or_nan scenes" "(0::nat) < 1 * 1 * 2"
    by (simp_all add: scenes_def finite_or_nan_def)
  have v: "valid_values (Some (Fin 0)) (time_series scenes 0) = [2, 4]"
    by (simp add: valid_values_def time_series_def scenes_def upt3)
  have m: "median [2, 4] = 3"
    by (simp add: median_def)
  from get_pc_median_mosaic [OF a b c, of "Some (Fin 0)"] v m a b c
  show ?thesis by simp
qed

subsection \<open>Signed URLs\<close>






text \<open>
  The surface-water notebook opens the URLs of the item as the catalog returned them: it
  never signs.
\<close>

lemma jrc_colormap_open_unsigned:
  "jrc_colormap_open catalog_env richmond_box [''data''] = Inr [Unsigned ''https://store/data.tif'']"
  by (simp add: jrc_colormap_open_def catalog_env_def scene_item_def)

subsection \<open>Paging through the occurrence search\<close>













subsection \<open>The spatial join\<close>

lemma nearest_scan:
  assumes "0 < n" "n \<le> length coords"
  shows "fold (\<lambda>k best. if rank t (coords ! k) < rank t (coords ! best) then k else best) [1..<n] 0 < n \<and>
     (\<forall>k<n. rank t (coords ! fold (\<lambda>k best. if rank t (coords ! k) < rank t (coords ! best) then k else best) [1..<n] 0)
               \<le> rank t (coords ! k))"
  using assms
proof (induction n)
  case 0
  then show ?case by simp
next
  case (Suc n)
  let ?f = "\<lambda>k best. if rank t (coords ! k) < rank t (coords ! best) then k else best"
  show ?case
  proof (cases "n = 0")
    case True
    then show ?thesis by simp
  next
    case False
    define b where "b = fold ?f [1..<n] 0"
    from False Suc have ih: "b < n" "\<forall>k<n. rank t (coords ! b) \<le> rank t (coords ! k)"
      by (simp_all add: b_def)
    have u: "[1..<Suc n] = [1..<n] @ [n]" using False by simp
    have f: "fold ?f [1..<Suc n] 0 = ?f n b"
      unfolding u by (simp add: b_def)
    show ?thesis
    proof (cases "rank t (coords ! n) < rank t (coords ! b)")
      case True
      then have "\<forall>k<Suc n. rank t (coords ! n) \<le> rank t (coords ! k)"
        using ih(2) by (auto simp: less_Suc_eq intro: order.trans less_imp_le)
      with True show ?thesis unfolding f by simp
    next
      case False
      then have "\<forall>k<Suc n. rank t (coords ! b) \<le> rank t (coords ! k)"
        using ih(2) by (auto simp: less_Suc_eq)
      with False ih(1) show ?thesis unfolding f by simp
    qed
  qed
qed

lemma rank_le_dist: "rank t a \<le> rank t b \<Longrightarrow> \<bar>a - t\<bar> \<le> \<bar>b - t\<bar>"
  by (auto simp: rank_def less_eq_prod_def)

lemma nearest_pos_is_nearest:
  assumes "coords \<noteq> []"
  shows "is_nearest coords t (nearest_pos coords t)"
proof -
  have "0 < length coords" using assms by simp
  from nearest_scan [OF this order_refl, of t] show ?thesis
    unfolding is_nearest_def nearest_pos_def by (auto dest: rank_le_dist)
qed

lemma sel_nearest_regular:
  "regular_axis coords \<Longrightarrow> sel_nearest coords t = Inr (nearest_pos coords t)"
  by (auto simp: sel_nearest_def regular_axis_def)

lemma sel_nearest_pixel_regular:
  assumes "band_y_x img" "regular_axis (da_x img)" "regular_axis (da_y img)"
  shows "sel_nearest_pixel img (decimalLongitude r) (decimalLatitude r) = Inr (nearest_pixel img r)"
  using assms(1)
  by (simp add: sel_nearest_pixel_def band_y_x_def sel_nearest_regular [OF assms(2)]
      sel_nearest_regular [OF assms(3)] nearest_pixel_def)

lemma length_nearest_pixel: "length (nearest_pixel img r) = length (da_band img)"
  by (simp add: nearest_pixel_def pixel_values_def)











text \<open>
  Two inputs on which the join raises: no point at all, and an image of a single band.
\<close>

lemma join_features_no_points: "join_features [] img = Inl KeyError"
  by (simp add: join_features_def)

lemma join_features_single_band:
  assumes "band_y_x img" "regular_axis (da_x img)" "regular_axis (da_y img)"
    and "length (da_band img) = 1"
  shows "join_features (r # rows) img = Inl ValueError"
  using assms(4)
  by (simp add: join_features_def sel_nearest_pixel_regular [OF assms(1-3)] length_nearest_pixel)

text \<open>
  On a well-formed image the positions the join reads are positions of the image's values.
\<close>

lemma nearest_pixel_in_range:
  assumes "regular_axis (da_x img)" and "regular_axis (da_y img)"
    and "length (buf (da_values img)) = length (da_band img) * length (da_y img) * length (da_x img)"
    and "b < length (da_band img)"
  shows "(b * length (da_y img) + nearest_pos (da_y img) lat) * length (da_x img)
           + nearest_pos (da_x img) lon < length (buf (da_values img))"
proof -
  have x: "nearest_pos (da_x img) lon < length (da_x img)"
    using nearest_pos_is_nearest [of "da_x img" lon] assms(1)
    by (simp add: regular_axis_def is_nearest_def)
  have y: "nearest_pos (da_y img) lat < length (da_y img)"
    using nearest_pos_is_nearest [of "da_y img" lat] assms(2)
    by (simp add: regular_axis_def is_nearest_def)
  have "b * length (da_y img) + nearest_pos (da_y img) lat < length (da_band img) * length (da_y img)"
    using assms(4) y by (rule grid_index)
  then show ?thesis
    unfolding assms(3) using x by (rule grid_index)
qed

end
